theory Spec2Isabelle
  imports Complex_Main
begin

section \<open>Strings and the regular expressions of the source\<close>

text \<open>
  A JavaScript string is a sequence of code units; here a text is a \<open>string\<close> whose
  characters are the code units below 256 (Latin-1), and \<open>length\<close> is the
  \<^verbatim>\<open>.length\<close> of the source. JavaScript numbers are modelled as exact reals: every
  number the decision logic compares is a short decimal fraction.
\<close>

definition codeUnit :: "char \<Rightarrow> nat" where
  "codeUnit c = of_char c"

definition isDigit :: "char \<Rightarrow> bool" where
  "isDigit c = (48 \<le> codeUnit c \<and> codeUnit c \<le> 57)"

definition isUpper :: "char \<Rightarrow> bool" where
  "isUpper c = (65 \<le> codeUnit c \<and> codeUnit c \<le> 90)"

definition isLower :: "char \<Rightarrow> bool" where
  "isLower c = (97 \<le> codeUnit c \<and> codeUnit c \<le> 122)"

text \<open>The class \<^verbatim>\<open>\w\<close>: letters, digits and the underscore.\<close>

definition isWordChar :: "char \<Rightarrow> bool" where
  "isWordChar c = (isDigit c \<or> isUpper c \<or> isLower c \<or> codeUnit c = 95)"

text \<open>The class \<^verbatim>\<open>\s\<close> on Latin-1: tab, the line breaks, space and the no-break space.\<close>

definition isSpace :: "char \<Rightarrow> bool" where
  "isSpace c = ((9 \<le> codeUnit c \<and> codeUnit c \<le> 13) \<or> codeUnit c = 32 \<or> codeUnit c = 160)"

text \<open>The dot of a regular expression matches every code unit but a line terminator.\<close>

definition isLineTerminator :: "char \<Rightarrow> bool" where
  "isLineTerminator c = (codeUnit c = 10 \<or> codeUnit c = 13)"

text \<open>\<^verbatim>\<open>String.prototype.toLowerCase\<close> on Latin-1.\<close>

definition toLowerChar :: "char \<Rightarrow> char" where
  "toLowerChar c =
     (if isUpper c \<or> (192 \<le> codeUnit c \<and> codeUnit c \<le> 222 \<and> codeUnit c \<noteq> 215)
      then char_of (codeUnit c + 32) else c)"

definition toLowerCase :: "string \<Rightarrow> string" where
  "toLowerCase s = map toLowerChar s"

text \<open>
  The canonical form under the flag \<^verbatim>\<open>i\<close>: the upper-case letter of an ASCII letter;
  no other code unit is canonicalised to an ASCII letter.
\<close>

definition canon :: "char \<Rightarrow> char" where
  "canon c = (if isLower c then char_of (codeUnit c - 32) else c)"

fun js_startsWith :: "string \<Rightarrow> string \<Rightarrow> bool" where
  "js_startsWith [] s = True"
| "js_startsWith (p # ps) [] = False"
| "js_startsWith (p # ps) (c # cs) = (p = c \<and> js_startsWith ps cs)"

text \<open>A literal of a regular expression with the flag \<^verbatim>\<open>i\<close>, matched at the start of the text.\<close>

fun startsWithCI :: "string \<Rightarrow> string \<Rightarrow> bool" where
  "startsWithCI [] s = True"
| "startsWithCI (p # ps) [] = False"
| "startsWithCI (p # ps) (c # cs) = (canon p = canon c \<and> startsWithCI ps cs)"

text \<open>A regular expression is searched at every position, from left to right.\<close>

fun existsSuffix :: "(string \<Rightarrow> bool) \<Rightarrow> string \<Rightarrow> bool" where
  "existsSuffix m [] = m []"
| "existsSuffix m (c # cs) = (m (c # cs) \<or> existsSuffix m cs)"

text \<open>\<^verbatim>\<open>String.prototype.includes\<close>.\<close>

definition js_includes :: "string \<Rightarrow> string \<Rightarrow> bool" where
  "js_includes s pat = existsSuffix (js_startsWith pat) s"

text \<open>\<^verbatim>\<open>.*\<close> followed by the rest \<open>k\<close> of the expression.\<close>

fun dotStar :: "(string \<Rightarrow> bool) \<Rightarrow> string \<Rightarrow> bool" where
  "dotStar k [] = k []"
| "dotStar k (c # cs) = (k (c # cs) \<or> (\<not> isLineTerminator c \<and> dotStar k cs))"

text \<open>\<^verbatim>\<open>\d+\<close> at the start of the text.\<close>

definition startsWithDigit :: "string \<Rightarrow> bool" where
  "startsWithDigit s = (case s of [] \<Rightarrow> False | c # cs \<Rightarrow> isDigit c)"

section \<open>The response validator\<close>

record ValidationResult =
  isValid :: bool
  issues :: "string list"
  warnings :: "string list"
  score :: real

text \<open>\<^verbatim>\<open>/\[.*\]|\{\{.*\}\}|PLACEHOLDER|TODO|XXX/i\<close>\<close>

definition placeholderAt :: "string \<Rightarrow> bool" where
  "placeholderAt t =
     ((js_startsWith ''['' t \<and> dotStar (js_startsWith '']'') (drop 1 t))
      \<or> (js_startsWith ''{{'' t \<and> dotStar (js_startsWith ''}}'') (drop 2 t))
      \<or> startsWithCI ''PLACEHOLDER'' t
      \<or> startsWithCI ''TODO'' t
      \<or> startsWithCI ''XXX'' t)"

definition placeholderRe :: "string \<Rightarrow> bool" where
  "placeholderRe s = existsSuffix placeholderAt s"

text \<open>\<^verbatim>\<open>/#\d+|order.*\d+/i\<close>\<close>

definition orderDetailAt :: "string \<Rightarrow> bool" where
  "orderDetailAt t =
     ((js_startsWith ''#'' t \<and> startsWithDigit (drop 1 t))
      \<or> (startsWithCI ''order'' t \<and> dotStar startsWithDigit (drop 5 t)))"

definition orderDetailRe :: "string \<Rightarrow> bool" where
  "orderDetailRe s = existsSuffix orderDetailAt s"

definition professionalWords :: "string list" where
  "professionalWords =
     [''thank you'', ''appreciate'', ''help'', ''assist'', ''sorry'', ''apologize'']"

definition hasProffessionalTone :: "string \<Rightarrow> bool" where
  "hasProffessionalTone response =
     list_ex (\<lambda>word. js_includes (toLowerCase response) word) professionalWords"

definition validateResponse :: "string \<Rightarrow> ValidationResult" where
  "validateResponse response =
     (let issues1 = (if length response < 30 then [''Response is too short''] else []);
          warnings1 = (if length response > 1000 then [''Response is quite long''] else []);
          issues2 = (if placeholderRe response
                     then issues1 @ [''Response contains placeholders or incomplete information'']
                     else issues1);
          warnings2 = (if hasProffessionalTone response then warnings1
                       else warnings1 @ [''Response may lack professional courtesy words'']);
          warnings3 = (if js_includes response ''your order'' \<and> \<not> orderDetailRe response
                       then warnings2 @ [''Response mentions order but lacks specific order details'']
                       else warnings2)
      in \<lparr>isValid = (length issues2 = 0),
          issues = issues2,
          warnings = warnings3,
          score = max 0 (1 - (real (length issues2) * 0.3) - (real (length warnings3) * 0.1))\<rparr>)"

section \<open>Order and evidence records\<close>

record Fulfillment =
  trackingCompany :: string
  trackingNumbers :: "string list"
  estimatedDeliveryAt :: string

record ShopifyOrder =
  orderNumber :: string
  fulfillmentStatus :: string
  fulfillments :: "Fulfillment list"

record SimilarResponse =
  similarQuery :: string
  similarText :: string
  similarity :: real

record AIGeneratedResponse =
  response :: string
  confidence :: real
  reasoning :: string
  shouldEscalate :: bool
  promptUsed :: string
  modelUsed :: string
  tokensUsed :: nat

text \<open>An optional parameter is \<open>None\<close> when it is left out of the call.\<close>

record GenerateParams =
  customerQuery :: string
  customerEmail :: string
  customerName :: "string option"
  orderData :: "ShopifyOrder list option"
  similarResponses :: "SimilarResponse list option"
  category :: "string option"
  contextNote :: "string option"

text \<open>\<^verbatim>\<open>orderData && orderData.length > 0\<close>\<close>

definition hasOrderData :: "ShopifyOrder list option \<Rightarrow> bool" where
  "hasOrderData od = (case od of None \<Rightarrow> False | Some os \<Rightarrow> length os > 0)"

section \<open>The confidence scorer\<close>

text \<open>\<^verbatim>\<open>/tracking|order.*#\d+|delivery|shipping/i\<close>\<close>

definition hashDigits :: "string \<Rightarrow> bool" where
  "hashDigits t = (js_startsWith ''#'' t \<and> startsWithDigit (drop 1 t))"

definition detailAt :: "string \<Rightarrow> bool" where
  "detailAt t =
     (startsWithCI ''tracking'' t
      \<or> (startsWithCI ''order'' t \<and> dotStar hashDigits (drop 5 t))
      \<or> startsWithCI ''delivery'' t
      \<or> startsWithCI ''shipping'' t)"

definition detailRe :: "string \<Rightarrow> bool" where
  "detailRe s = existsSuffix detailAt s"

definition avgSimilarity :: "SimilarResponse list \<Rightarrow> real" where
  "avgSimilarity rs = foldl (\<lambda>sum r. sum + similarity r) 0 rs / real (length rs)"

definition containsPlaceholderText :: "string \<Rightarrow> bool" where
  "containsPlaceholderText r =
     (js_includes r ''['' \<or> js_includes r ''{{'' \<or> js_includes r ''PLACEHOLDER'')"

definition calculateConfidence ::
    "string \<Rightarrow> ShopifyOrder list option \<Rightarrow> SimilarResponse list option \<Rightarrow> real" where
  "calculateConfidence r od sims =
     (let confidence0 = 0.5;
          confidence1 = (if hasOrderData od then confidence0 + 0.3 else confidence0);
          confidence2 = (case sims of
                           None \<Rightarrow> confidence1
                         | Some rs \<Rightarrow> if length rs > 0
                                     then confidence1 + avgSimilarity rs * 0.2
                                     else confidence1);
          confidence3 = (if length r < 50 then confidence2 - 0.2 else confidence2);
          confidence4 = (if containsPlaceholderText r then confidence3 - 0.3 else confidence3);
          confidence5 = (if detailRe r then confidence4 + 0.1 else confidence4)
      in max 0 (min 1 confidence5))"

section \<open>The intent classifier\<close>

datatype Urgency = Low | Medium | High

record QueryAnalysis =
  intent :: string
  keywordsFound :: "string list"
  queryOrderNumber :: "string option"
  urgency :: Urgency
  requiresEscalation :: bool

fun headOpt :: "string \<Rightarrow> char option" where
  "headOpt [] = None"
| "headOpt (c # cs) = Some c"

fun lastOpt :: "string \<Rightarrow> char option" where
  "lastOpt [] = None"
| "lastOpt [c] = Some c"
| "lastOpt (c # d # cs) = lastOpt (d # cs)"

definition isWordOpt :: "char option \<Rightarrow> bool" where
  "isWordOpt a = (case a of None \<Rightarrow> False | Some c \<Rightarrow> isWordChar c)"

text \<open>\<^verbatim>\<open>\b\<close> between the code unit before the position and the one after it.\<close>

definition isBoundary :: "char option \<Rightarrow> char option \<Rightarrow> bool" where
  "isBoundary a b = (isWordOpt a \<noteq> isWordOpt b)"

text \<open>
  \<^verbatim>\<open>\b(w1|w2|...)\b\<close> at one position: an alternative matches when it is there with
  a boundary on both sides; the alternatives are tried in turn until one does.
\<close>

definition wordAltAt :: "string list \<Rightarrow> char option \<Rightarrow> string \<Rightarrow> bool" where
  "wordAltAt ws prev t =
     (isBoundary prev (headOpt t)
      \<and> list_ex (\<lambda>w. js_startsWith w t \<and> isBoundary (lastOpt w) (headOpt (drop (length w) t))) ws)"

fun searchFrom :: "(char option \<Rightarrow> string \<Rightarrow> bool) \<Rightarrow> char option \<Rightarrow> string \<Rightarrow> bool" where
  "searchFrom m prev [] = m prev []"
| "searchFrom m prev (c # cs) = (m prev (c # cs) \<or> searchFrom m (Some c) cs)"

definition matchWords :: "string list \<Rightarrow> string \<Rightarrow> bool" where
  "matchWords ws s = searchFrom (wordAltAt ws) None s"

definition statusTerms :: "string list" where
  "statusTerms = [''status'', ''where'', ''when'', ''delivered'', ''arrive'', ''shipped'',
     ''shipping'', ''delivery'', ''tracking'', ''track'']"

definition trackingTerms :: "string list" where
  "trackingTerms = [''track'', ''tracking'', ''number'']"

definition returnTerms :: "string list" where
  "returnTerms = [''return'', ''refund'', ''exchange'', ''cancel'', ''defective'', ''wrong'',
     ''broken'', ''damaged'']"

definition productTerms :: "string list" where
  "productTerms = [''blue light'', ''prescription'', ''lens'', ''frame'', ''size'', ''fit'',
     ''color'', ''style'', ''recommend'']"

definition complaintTerms :: "string list" where
  "complaintTerms = [''problem'', ''issue'', ''complaint'', ''disappointed'', ''unhappy'',
     ''terrible'', ''awful'', ''angry'', ''frustrated'']"

definition urgencyTerms :: "string list" where
  "urgencyTerms = [''urgent'', ''asap'', ''immediately'', ''emergency'', ''help'', ''please help'']"

fun findFirst :: "(string \<Rightarrow> 'a option) \<Rightarrow> string \<Rightarrow> 'a option" where
  "findFirst m [] = m []"
| "findFirst m (c # cs) = (case m (c # cs) of Some r \<Rightarrow> Some r | None \<Rightarrow> findFirst m cs)"

text \<open>The class \<^verbatim>\<open>[A-Z0-9-]\<close> under the flag \<^verbatim>\<open>i\<close>.\<close>

definition isOrderChar :: "char \<Rightarrow> bool" where
  "isOrderChar c = (isUpper c \<or> isLower c \<or> isDigit c \<or> c = CHR ''-'')"

text \<open>A group \<^verbatim>\<open>(C+)\<close> of a character class, greedy, at the start of the text.\<close>

definition capture :: "(char \<Rightarrow> bool) \<Rightarrow> string \<Rightarrow> string option" where
  "capture cls t = (let g = takeWhile cls t in if g = [] then None else Some g)"

text \<open>
  \<^verbatim>\<open>/(?:order|#)\s*([A-Z0-9-]+)/i\<close> at one position. White space and the class of the
  group are disjoint, so the greedy \<^verbatim>\<open>\s*\<close> never gives a code unit back.
\<close>

definition orderMatchAt :: "string \<Rightarrow> string option" where
  "orderMatchAt t =
     (if startsWithCI ''order'' t then capture isOrderChar (dropWhile isSpace (drop 5 t))
      else if js_startsWith ''#'' t then capture isOrderChar (dropWhile isSpace (drop 1 t))
      else None)"

definition orderMatch :: "string \<Rightarrow> string option" where
  "orderMatch query = findFirst orderMatchAt query"

definition analyzeCustomerQuery :: "string \<Rightarrow> QueryAnalysis" where
  "analyzeCustomerQuery query =
     (let lowerQuery = toLowerCase query;
          a0 = \<lparr>intent = ''general_inquiry'', keywordsFound = [],
                queryOrderNumber = orderMatch query,
                urgency = Medium, requiresEscalation = False\<rparr>;
          a1 = (if matchWords statusTerms lowerQuery
                then a0\<lparr>keywordsFound := keywordsFound a0 @ [''status'', ''shipping''],
                        intent := (if matchWords trackingTerms lowerQuery
                                   then ''shipping_tracking'' else ''order_status'')\<rparr>
                else a0);
          a2 = (if matchWords returnTerms lowerQuery
                then a1\<lparr>keywordsFound := keywordsFound a1 @ [''return'', ''refund''],
                        intent := ''return_refund'',
                        requiresEscalation := True\<rparr>
                else a1);
          a3 = (if matchWords productTerms lowerQuery
                then a2\<lparr>keywordsFound := keywordsFound a2 @ [''product''],
                        intent := ''product_inquiry''\<rparr>
                else a2);
          a4 = (if matchWords complaintTerms lowerQuery
                then a3\<lparr>keywordsFound := keywordsFound a3 @ [''complaint''],
                        intent := ''complaint_issue'',
                        urgency := High,
                        requiresEscalation := True\<rparr>
                else a3);
          a5 = (if matchWords urgencyTerms lowerQuery
                then a4\<lparr>urgency := High, requiresEscalation := True\<rparr>
                else a4)
      in a5)"

section \<open>The order number of the email pipeline\<close>

text \<open>The same search with the code unit before the position, for \<^verbatim>\<open>\b\<close>.\<close>

fun findFirstFrom ::
    "(char option \<Rightarrow> string \<Rightarrow> 'a option) \<Rightarrow> char option \<Rightarrow> string \<Rightarrow> 'a option" where
  "findFirstFrom m prev [] = m prev []"
| "findFirstFrom m prev (c # cs) =
     (case m prev (c # cs) of Some r \<Rightarrow> Some r | None \<Rightarrow> findFirstFrom m (Some c) cs)"

text \<open>\<^verbatim>\<open>/#(\d+)/\<close>\<close>

definition pattern1At :: "string \<Rightarrow> string option" where
  "pattern1At t = (if js_startsWith ''#'' t then capture isDigit (drop 1 t) else None)"

text \<open>\<^verbatim>\<open>\s+\<close> followed by the rest \<open>k\<close> of the expression, which starts with no white space.\<close>

definition afterSpaces :: "(string \<Rightarrow> 'a option) \<Rightarrow> string \<Rightarrow> 'a option" where
  "afterSpaces k t = (if takeWhile isSpace t = [] then None else k (dropWhile isSpace t))"

text \<open>\<^verbatim>\<open>/order\s+(?:number\s+)?(\d+)/i\<close>\<close>

definition pattern2At :: "string \<Rightarrow> string option" where
  "pattern2At t =
     (if startsWithCI ''order'' t
      then afterSpaces
             (\<lambda>u. if startsWithCI ''number'' u
                  then afterSpaces (capture isDigit) (drop 6 u)
                  else capture isDigit u)
             (drop 5 t)
      else None)"

text \<open>\<^verbatim>\<open>/order\s+#(\d+)/i\<close>\<close>

definition pattern3At :: "string \<Rightarrow> string option" where
  "pattern3At t =
     (if startsWithCI ''order'' t
      then afterSpaces (\<lambda>u. if js_startsWith ''#'' u then capture isDigit (drop 1 u) else None)
             (drop 5 t)
      else None)"

text \<open>
  \<^verbatim>\<open>/\b(\d{4,})\b/\<close>: a run of digits is a run of word characters, so the boundaries
  hold only around the whole run.
\<close>

definition pattern4At :: "char option \<Rightarrow> string \<Rightarrow> string option" where
  "pattern4At prev t =
     (let g = takeWhile isDigit t
      in if isBoundary prev (headOpt t) \<and> length g \<ge> 4
            \<and> isBoundary (lastOpt g) (headOpt (dropWhile isDigit t))
         then Some g else None)"

definition extractOrderNumber :: "string \<Rightarrow> string option" where
  "extractOrderNumber t =
     (case findFirst pattern1At t of Some r \<Rightarrow> Some r | None \<Rightarrow>
      (case findFirst pattern2At t of Some r \<Rightarrow> Some r | None \<Rightarrow>
       (case findFirst pattern3At t of Some r \<Rightarrow> Some r | None \<Rightarrow>
        findFirstFrom pattern4At None t)))"

section \<open>The response composer\<close>

text \<open>\<^verbatim>\<open>customerName ? ` ${customerName}` : ''\<close>: a missing and an empty name are both falsy.\<close>

definition nameSuffix :: "string option \<Rightarrow> string" where
  "nameSuffix n = (case n of None \<Rightarrow> [] | Some x \<Rightarrow> if x = [] then [] else '' '' @ x)"

definition getOrderStatusDetails :: "ShopifyOrder \<Rightarrow> string" where
  "getOrderStatusDetails order =
     (if fulfillmentStatus order = ''shipped''
        then ''Your order has been shipped and is on its way to you!''
      else if fulfillmentStatus order = ''delivered''
        then ''Your order has been delivered.''
      else if fulfillmentStatus order = ''pending''
        then ''Your order is being prepared and will ship soon.''
      else if fulfillmentStatus order = ''processing''
        then ''Your order is currently being processed.''
      else ''Your order is being handled by our team.'')"

definition generateOrderStatusResponse ::
    "string option \<Rightarrow> string \<Rightarrow> ShopifyOrder list option \<Rightarrow> QueryAnalysis \<Rightarrow> string" where
  "generateOrderStatusResponse cname query od analysis =
     (case (if hasOrderData od then od else None) of
        Some (order # rest) \<Rightarrow>
          ''Hi'' @ nameSuffix cname
          @ '', thank you for your inquiry about your order. I can see you have order #''
          @ orderNumber order @ '' with a '' @ fulfillmentStatus order @ '' status. ''
          @ getOrderStatusDetails order
          @ '' Our team will provide you with any additional updates you need. If you have any other questions, please let us know!''
      | _ \<Rightarrow>
          (case queryOrderNumber analysis of
             Some n \<Rightarrow>
               ''Hi'' @ nameSuffix cname @ '', thank you for asking about order #'' @ n
               @ ''. I'm looking up the details for this order and will get back to you within 30 minutes with a complete status update. If this is urgent, please call our customer service line at your convenience.''
           | None \<Rightarrow>
               ''Hi'' @ nameSuffix cname
               @ '', thank you for your order status inquiry. To provide you with accurate information, I'll need to look up your order details. Could you please provide your order number? Alternatively, our customer service team can help you immediately by phone.''))"

text \<open>
  The date of the estimated delivery is printed by the runtime in its locale:
  \<open>fmt\<close> stands for \<^verbatim>\<open>new Date(s).toLocaleDateString()\<close>.
\<close>

definition generateShippingResponse ::
    "(string \<Rightarrow> string) \<Rightarrow> string option \<Rightarrow> string \<Rightarrow> ShopifyOrder list option
       \<Rightarrow> QueryAnalysis \<Rightarrow> string" where
  "generateShippingResponse fmt cname query od analysis =
     (case (if hasOrderData od then od else None) of
        Some (order # rest) \<Rightarrow>
          (case fulfillments order of
             fulfillment # later \<Rightarrow>
               ''Hi'' @ nameSuffix cname @ '', your order #'' @ orderNumber order
               @ '' has shipped! ''
               @ (case trackingNumbers fulfillment of
                    tracking # others \<Rightarrow>
                      if tracking \<noteq> []
                      then ''Your tracking number is '' @ tracking @ '' with ''
                           @ trackingCompany fulfillment @ ''.''
                      else ''You should receive tracking information shortly.''
                  | [] \<Rightarrow> ''You should receive tracking information shortly.'')
               @ '' ''
               @ (if estimatedDeliveryAt fulfillment \<noteq> []
                  then ''Expected delivery: '' @ fmt (estimatedDeliveryAt fulfillment) @ ''.''
                  else [])
               @ '' You can track your package directly on the carrier's website.''
           | [] \<Rightarrow>
               ''Hi'' @ nameSuffix cname @ '', your order #'' @ orderNumber order
               @ '' is currently being prepared for shipment. You'll receive tracking information as soon as it ships, typically within 1-2 business days. Thank you for your patience!'')
      | _ \<Rightarrow>
          ''Hi'' @ nameSuffix cname
          @ '', I'd be happy to help you track your order! Could you please provide your order number so I can give you the most up-to-date tracking information? Our customer service team is also available to assist you immediately.'')"

definition generateReturnRefundResponse ::
    "string option \<Rightarrow> string \<Rightarrow> ShopifyOrder list option \<Rightarrow> QueryAnalysis \<Rightarrow> string" where
  "generateReturnRefundResponse cname query od analysis =
     ''Hi'' @ nameSuffix cname
     @ '', I understand you'd like to discuss a return or refund. We offer a 30-day return policy and want to make this process as easy as possible for you. Our customer service team will review your specific situation and provide you with return instructions and a prepaid shipping label if needed. You'll hear back from us within 2 hours, or feel free to call our customer service line for immediate assistance.''"

definition generateProductInquiryResponse ::
    "string option \<Rightarrow> string \<Rightarrow> ShopifyOrder list option \<Rightarrow> QueryAnalysis \<Rightarrow> string" where
  "generateProductInquiryResponse cname query od analysis =
     (let productSpecific =
            (if js_includes (toLowerCase query) ''blue light''
               then '' Our blue light glasses filter 90% of harmful blue light and can significantly reduce eye strain from digital screens.''
             else if js_includes (toLowerCase query) ''prescription''
               then '' We work with licensed opticians to ensure your prescription is perfectly crafted for your new frames.''
             else [])
      in ''Hi'' @ nameSuffix cname @ '', thank you for your interest in our eyewear products!''
         @ productSpecific
         @ '' Our customer service team will provide you with detailed information to help you make the best choice for your needs. You'll receive a comprehensive response within 2-4 hours, or call us for immediate assistance with product selection.'')"

definition generateComplaintResponse ::
    "string option \<Rightarrow> string \<Rightarrow> ShopifyOrder list option \<Rightarrow> QueryAnalysis \<Rightarrow> string" where
  "generateComplaintResponse cname query od analysis =
     ''Hi'' @ nameSuffix cname
     @ '', I sincerely apologize for any inconvenience you've experienced. Your concern is very important to us, and I want to make sure we resolve this properly. A senior customer service representative will personally review your case and contact you within 1 hour to discuss how we can make this right. If you prefer immediate assistance, please call our customer service line and mention this is a priority case.''"

definition generateGeneralResponse ::
    "string option \<Rightarrow> string \<Rightarrow> ShopifyOrder list option \<Rightarrow> QueryAnalysis \<Rightarrow> string" where
  "generateGeneralResponse cname query od analysis =
     (let lowerQuery = toLowerCase query in
      if js_includes lowerQuery ''hours'' \<or> js_includes lowerQuery ''open''
         \<or> js_includes lowerQuery ''when''
      then ''Hi'' @ nameSuffix cname
           @ '', thank you for your inquiry! Our customer service team is available Monday-Friday 9 AM to 6 PM EST. You can also reach us anytime through this email system, and we typically respond within a few hours during business days. How can we help you today?''
      else if js_includes lowerQuery ''policy'' \<or> js_includes lowerQuery ''return''
         \<or> js_includes lowerQuery ''warranty''
      then ''Hi'' @ nameSuffix cname
           @ '', thank you for asking about our policies! We offer a 30-day return policy for all our eyewear products. If you're not completely satisfied, you can return items in original condition for a full refund or exchange. Our customer service team can provide detailed policy information and help with any returns. What specific information do you need?''
      else if js_includes lowerQuery ''prescription'' \<or> js_includes lowerQuery ''glasses''
         \<or> js_includes lowerQuery ''lens''
      then ''Hi'' @ nameSuffix cname
           @ '', thank you for your interest in our eyewear! We offer both prescription and non-prescription glasses, including blue light blocking lenses. Our team can help you with frame selection, lens options, and prescription requirements. What specific questions do you have about our products?''
      else if js_includes lowerQuery ''shipping'' \<or> js_includes lowerQuery ''delivery''
         \<or> js_includes lowerQuery ''cost''
      then ''Hi'' @ nameSuffix cname
           @ '', thank you for your shipping inquiry! We offer free standard shipping on orders over $50, with delivery typically taking 5-7 business days. Expedited shipping options are also available. Our team can provide specific shipping details and costs for your location. What would you like to know?''
      else ''Hi'' @ nameSuffix cname
           @ '', thank you for reaching out! I've received your message regarding ''
           @ [CHR 0x22]
           @ (if length query > 50 then take 50 query @ ''...'' else query)
           @ [CHR 0x22]
           @ '' and I want to make sure we provide you with the most helpful response. Our customer service team is reviewing your specific question and will get back to you shortly with detailed information. Is there anything urgent I can help you with right now?'')"

section \<open>The fallback of the generation orchestrator\<close>

text \<open>\<^verbatim>\<open>Array.prototype.join\<close>\<close>

fun js_join :: "string \<Rightarrow> string list \<Rightarrow> string" where
  "js_join sep [] = []"
| "js_join sep [k] = k"
| "js_join sep (k # l # ks) = k @ sep @ js_join sep (l # ks)"

definition fallbackConfidence :: "string \<Rightarrow> real" where
  "fallbackConfidence i =
     (if i = ''order_status'' then 0.75
      else if i = ''shipping_tracking'' then 0.75
      else if i = ''return_refund'' then 0.7
      else if i = ''product_inquiry'' then 0.65
      else if i = ''complaint_issue'' then 0.8
      else 0.6)"

definition fallbackText ::
    "(string \<Rightarrow> string) \<Rightarrow> GenerateParams \<Rightarrow> QueryAnalysis \<Rightarrow> string" where
  "fallbackText fmt params queryAnalysis =
     (let i = intent queryAnalysis; n = customerName params; q = customerQuery params;
          od = orderData params
      in if i = ''order_status'' then generateOrderStatusResponse n q od queryAnalysis
         else if i = ''shipping_tracking'' then generateShippingResponse fmt n q od queryAnalysis
         else if i = ''return_refund'' then generateReturnRefundResponse n q od queryAnalysis
         else if i = ''product_inquiry'' then generateProductInquiryResponse n q od queryAnalysis
         else if i = ''complaint_issue'' then generateComplaintResponse n q od queryAnalysis
         else generateGeneralResponse n q od queryAnalysis)"

text \<open>
  The \<^verbatim>\<open>switch\<close> of the source sets the text and the confidence in the same case; the
  two functions above list its cases in the same order.
\<close>

definition generateFallbackResponse ::
    "(string \<Rightarrow> string) \<Rightarrow> GenerateParams \<Rightarrow> string \<Rightarrow> AIGeneratedResponse" where
  "generateFallbackResponse fmt params errorType =
     (let queryAnalysis = analyzeCustomerQuery (customerQuery params);
          fallbackResponse = fallbackText fmt params queryAnalysis;
          conf = fallbackConfidence (intent queryAnalysis);
          reasoning0 = ''Intelligent fallback response ('' @ errorType
                       @ '') - detected intent: '' @ intent queryAnalysis
                       @ '', keywords: '' @ js_join '', '' (keywordsFound queryAnalysis)
      in \<lparr>response = fallbackResponse,
          confidence = conf,
          reasoning = reasoning0
                      @ (if hasOrderData (orderData params) then '' with order data'' else []),
          shouldEscalate = (requiresEscalation queryAnalysis \<or> conf < 0.7),
          promptUsed = ''Smart fallback analysis - Intent: '' @ intent queryAnalysis,
          modelUsed = ''intelligent_fallback'',
          tokensUsed = 0\<rparr>)"

section \<open>The generation orchestrator\<close>

text \<open>
  What the provider call did: it resolved with a completion (the content of the first
  choice when there is one, and the token count when it is reported), or it rejected
  with an error that may carry an HTTP status and a code.
\<close>

record ApiError =
  status :: "int option"
  code :: "string option"

datatype ProviderOutcome =
    Completed "string option" "nat option"
  | Failed ApiError

text \<open>The chain of tests in the \<^verbatim>\<open>catch\<close> block, in its order.\<close>

definition errorTypeOf :: "ApiError \<Rightarrow> string" where
  "errorTypeOf e =
     (if status e = Some 429 \<or> code e = Some ''insufficient_quota''
         \<or> code e = Some ''rate_limit_exceeded'' then ''rate_limit''
      else if status e = Some 401 \<or> code e = Some ''invalid_api_key'' then ''auth_error''
      else if status e = Some 503 \<or> status e = Some 502
         \<or> code e = Some ''service_unavailable'' then ''service_unavailable''
      else if status e = Some 400 \<or> code e = Some ''invalid_request_error''
         then ''invalid_request''
      else if code e = Some ''context_length_exceeded'' then ''context_too_long''
      else if code e = Some ''ECONNREFUSED'' \<or> code e = Some ''ENOTFOUND''
         \<or> code e = Some ''ETIMEDOUT'' then ''network_error''
      else ''unknown_error'')"

text \<open>\<^verbatim>\<open>String.prototype.trim\<close>\<close>

definition js_trim :: "string \<Rightarrow> string" where
  "js_trim s = rev (dropWhile isSpace (rev (dropWhile isSpace s)))"

text \<open>
  The runtime of the service: how it prints a date, how it prints the number of orders
  and a percentage, and the prompt it builds from the parameters. \<^verbatim>\<open>buildPrompt\<close> reads
  fields of the orders that the order lookup may have left null (the shipping address);
  then it throws a \<^verbatim>\<open>TypeError\<close>, here \<open>None\<close>. The text of the prompt and the
  printed numbers reach no test of the decision logic.
\<close>

record Runtime =
  toLocaleDateString :: "string \<Rightarrow> string"
  numberToString :: "nat \<Rightarrow> string"
  percentToFixed1 :: "real \<Rightarrow> string"
  buildPrompt :: "GenerateParams \<Rightarrow> string option"

text \<open>A \<^verbatim>\<open>TypeError\<close> carries neither a status nor a code.\<close>

definition typeError :: ApiError where
  "typeError = \<lparr>status = None, code = None\<rparr>"

text \<open>
  The calls made on the provider and on the mailbox, in their order. What the order
  lookup and the evidence store call is theirs.
\<close>

datatype Effect =
    ChatCompletion string
  | SendReply string string string string
  | CreateDraft string string string string

definition extractReasoning ::
    "Runtime \<Rightarrow> string \<Rightarrow> ShopifyOrder list option \<Rightarrow> SimilarResponse list option \<Rightarrow> string" where
  "extractReasoning rt r od sims =
     (let reasons1 = (case (if hasOrderData od then od else None) of
                        Some os \<Rightarrow> [''Found '' @ numberToString rt (length os)
                                     @ '' order(s) for customer'']
                      | None \<Rightarrow> [''No order data available'']);
          reasons2 = (case sims of
                        None \<Rightarrow> reasons1
                      | Some rs \<Rightarrow>
                          if length rs > 0
                          then reasons1 @ [numberToString rt (length rs)
                                 @ '' similar responses found (avg similarity: ''
                                 @ percentToFixed1 rt (avgSimilarity rs * 100) @ ''%)'']
                          else reasons1);
          reasons3 = (if length r < 50 then reasons2 @ [''Response may be too brief'']
                      else reasons2);
          reasons4 = (if js_includes r ''['' \<or> js_includes r ''{{''
                      then reasons3 @ [''Response contains placeholders''] else reasons3)
      in js_join ''; '' reasons4)"

text \<open>
  \<open>generateResponse\<close> takes the provider as the function \<open>create\<close> from the prompt to
  what the call does. It returns \<open>Inr\<close> of the reply, or \<open>Inl\<close> of the error it lets
  through to its caller, and the calls it made. The body of the \<^verbatim>\<open>try\<close> block is
  \<open>tryGenerate\<close>: it builds the prompt, calls the provider and ends with the reply or
  with the error thrown on the way.
\<close>

definition tryGenerate ::
    "Runtime \<Rightarrow> GenerateParams \<Rightarrow> (string \<Rightarrow> ProviderOutcome)
       \<Rightarrow> (ApiError + AIGeneratedResponse) \<times> Effect list" where
  "tryGenerate rt params create =
     (case buildPrompt rt params of
        None \<Rightarrow> (Inl typeError, [])
      | Some prompt \<Rightarrow>
          (case create prompt of
             Failed e \<Rightarrow> (Inl e, [ChatCompletion prompt])
           | Completed content usage \<Rightarrow>
               (let responseText = (case content of None \<Rightarrow> [] | Some c \<Rightarrow> js_trim c);
                    conf = calculateConfidence responseText (orderData params)
                             (similarResponses params)
                in (Inr \<lparr>response = responseText,
                         confidence = conf,
                         reasoning = extractReasoning rt responseText (orderData params)
                                       (similarResponses params),
                         shouldEscalate = (conf < 0.7),
                         promptUsed = prompt,
                         modelUsed = ''gpt-4o'',
                         tokensUsed = (case usage of None \<Rightarrow> 0 | Some n \<Rightarrow> n)\<rparr>,
                    [ChatCompletion prompt]))))"

definition generateResponse ::
    "Runtime \<Rightarrow> GenerateParams \<Rightarrow> (string \<Rightarrow> ProviderOutcome)
       \<Rightarrow> (ApiError + AIGeneratedResponse) \<times> Effect list" where
  "generateResponse rt params create =
     (case tryGenerate rt params create of
        (Inr reply, calls) \<Rightarrow> (Inr reply, calls)
      | (Inl e, calls) \<Rightarrow>
          (Inr (generateFallbackResponse (toLocaleDateString rt) params (errorTypeOf e)),
           calls))"

text \<open>
  The older copy of the service, \<^verbatim>\<open>app/services/ai-response.server.ts\<close>, has the same
  \<^verbatim>\<open>generateResponse\<close> and another fallback: one of two fixed texts, always escalated.
\<close>

definition legacyReasoning :: "string \<Rightarrow> string" where
  "legacyReasoning errorType =
     (if errorType = ''rate_limit'' then ''AI service rate limited - generated fallback response''
      else if errorType = ''auth_error''
        then ''AI service authentication error - generated fallback response''
      else if errorType = ''service_unavailable''
        then ''AI service temporarily unavailable - generated fallback response''
      else if errorType = ''network_error''
        then ''Network connection issue - generated fallback response''
      else if errorType = ''context_too_long''
        then ''Request too complex for AI - generated fallback response''
      else if errorType = ''invalid_request''
        then ''Invalid AI request format - generated fallback response''
      else ''AI service unavailable - generated fallback response'')"

definition legacyFallbackResponse :: "GenerateParams \<Rightarrow> string \<Rightarrow> AIGeneratedResponse" where
  "legacyFallbackResponse params errorType =
     (let thanks = ''Thank you'' @ nameSuffix (customerName params);
          fallbackResponse =
            (case (if hasOrderData (orderData params) then orderData params else None) of
               Some (latestOrder # rest) \<Rightarrow>
                 thanks @ '' for contacting us regarding your inquiry. I can see you have order #''
                 @ orderNumber latestOrder @ '' with a status of '' @ [CHR 0x22]
                 @ fulfillmentStatus latestOrder @ [CHR 0x22]
                 @ ''. Our customer service team is currently reviewing your message and will provide you with a detailed response within 2-4 hours. If this is urgent, please call our customer service line. We appreciate your patience and are committed to helping you.''
             | _ \<Rightarrow>
                 thanks @ '' for reaching out to us. Our customer service team is currently reviewing your inquiry and will get back to you within 2-4 hours with a detailed response. If this is urgent, please don't hesitate to call our customer service line. We appreciate your patience and are committed to resolving your question promptly.'')
      in \<lparr>response = fallbackResponse,
          confidence = 0.6,
          reasoning = legacyReasoning errorType
                      @ (if hasOrderData (orderData params) then '' using available order data''
                         else []),
          shouldEscalate = True,
          promptUsed = ''Fallback response - AI service error: '' @ errorType,
          modelUsed = ''fallback'',
          tokensUsed = 0\<rparr>)"

definition legacyGenerateResponse ::
    "Runtime \<Rightarrow> GenerateParams \<Rightarrow> (string \<Rightarrow> ProviderOutcome)
       \<Rightarrow> (ApiError + AIGeneratedResponse) \<times> Effect list" where
  "legacyGenerateResponse rt params create =
     (case tryGenerate rt params create of
        (Inr reply, calls) \<Rightarrow> (Inr reply, calls)
      | (Inl e, calls) \<Rightarrow> (Inr (legacyFallbackResponse params (errorTypeOf e)), calls))"

section \<open>The email pipeline\<close>

record GmailEmail =
  messageId :: string
  threadId :: string
  subject :: string
  fromEmail :: string
  fromName :: string
  body :: string
  htmlBody :: string
  receivedAt :: nat

text \<open>
  The three tables the pipeline writes. A row of \<^verbatim>\<open>CustomerEmail\<close> keeps the fields
  copied from the message as the message itself; the JSON texts of \<^verbatim>\<open>AIResponse\<close> are
  kept as the values they encode. An id is the number of rows the table had.
\<close>

record CustomerEmailRow =
  emailRowId :: nat
  gmailMessageId :: string
  copiedFrom :: GmailEmail
  processed :: bool
  emailConversationId :: nat

record ConversationRow =
  conversationId :: nat
  conversationEmail :: string
  conversationName :: string
  shopifyOrderId :: "string option"
  conversationStatus :: string
  priority :: string
  updatedAt :: "nat option"

record AIResponseRow =
  responseRowId :: nat
  responseText :: string
  rowConfidence :: real
  sentViaGmail :: bool
  humanReviewed :: bool
  escalated :: bool
  sentAt :: "nat option"
  responseConversationId :: nat
  shopifyData :: "ShopifyOrder list option"
  ragSources :: "SimilarResponse list option"
  rowPromptUsed :: string

record Database =
  customerEmailTable :: "CustomerEmailRow list"
  conversationTable :: "ConversationRow list"
  aIResponseTable :: "AIResponseRow list"

record EmailProcessResult =
  success :: bool
  resultEscalated :: bool
  message :: "string option"
  errorText :: "string option"
  resultResponseId :: "nat option"
  resultConfidence :: "real option"

text \<open>
  The collaborators of one run. \<^verbatim>\<open>findOrdersByEmail\<close> may throw (\<open>Inl\<close>);
  \<^verbatim>\<open>findOrderByNumber\<close>, the two functions of the evidence store and the two of the
  mailbox catch their own errors. The store answers every query.
\<close>

record Env =
  runtime :: Runtime
  findOrderByNumber :: "string \<Rightarrow> ShopifyOrder option"
  findOrdersByEmail :: "string \<Rightarrow> string + ShopifyOrder list"
  classifyQuery :: "string \<Rightarrow> string"
  searchSimilarResponses :: "string \<Rightarrow> nat \<Rightarrow> SimilarResponse list"
  completionsCreate :: "string \<Rightarrow> ProviderOutcome"
  sendReply :: "string \<Rightarrow> string \<Rightarrow> string \<Rightarrow> string \<Rightarrow> bool"
  createDraft :: "string \<Rightarrow> string \<Rightarrow> string \<Rightarrow> string \<Rightarrow> string option"
  now :: nat

definition truthy :: "string option \<Rightarrow> bool" where
  "truthy v = (case v of None \<Rightarrow> False | Some s \<Rightarrow> s \<noteq> [])"

text \<open>Step 2: find or create the conversation of the sender.\<close>

definition findOrCreateConversation ::
    "Database \<Rightarrow> GmailEmail \<Rightarrow> Database \<times> ConversationRow" where
  "findOrCreateConversation db email =
     (case find (\<lambda>c. conversationEmail c = fromEmail email) (conversationTable db) of
        Some conversation \<Rightarrow> (db, conversation)
      | None \<Rightarrow>
          (let conversation = \<lparr>conversationId = length (conversationTable db),
                                conversationEmail = fromEmail email,
                                conversationName = fromName email,
                                shopifyOrderId = None,
                                conversationStatus = ''ACTIVE'',
                                priority = ''NORMAL'',
                                updatedAt = None\<rparr>
           in (db\<lparr>conversationTable := conversationTable db @ [conversation]\<rparr>, conversation)))"

text \<open>Step 3: save the email.\<close>

definition saveEmail ::
    "Database \<Rightarrow> GmailEmail \<Rightarrow> ConversationRow \<Rightarrow> Database \<times> CustomerEmailRow" where
  "saveEmail db email conversation =
     (let savedEmail = \<lparr>emailRowId = length (customerEmailTable db),
                          gmailMessageId = messageId email,
                          copiedFrom = email,
                          processed = False,
                          emailConversationId = conversationId conversation\<rparr>
      in (db\<lparr>customerEmailTable := customerEmailTable db @ [savedEmail]\<rparr>, savedEmail))"

definition updateConversation ::
    "nat \<Rightarrow> (ConversationRow \<Rightarrow> ConversationRow) \<Rightarrow> Database \<Rightarrow> Database" where
  "updateConversation cid f db =
     db\<lparr>conversationTable :=
          map (\<lambda>c. if conversationId c = cid then f c else c) (conversationTable db)\<rparr>"

definition updateResponse ::
    "nat \<Rightarrow> (AIResponseRow \<Rightarrow> AIResponseRow) \<Rightarrow> Database \<Rightarrow> Database" where
  "updateResponse rid f db =
     db\<lparr>aIResponseTable :=
          map (\<lambda>r. if responseRowId r = rid then f r else r) (aIResponseTable db)\<rparr>"

definition updateEmail ::
    "nat \<Rightarrow> (CustomerEmailRow \<Rightarrow> CustomerEmailRow) \<Rightarrow> Database \<Rightarrow> Database" where
  "updateEmail eid f db =
     db\<lparr>customerEmailTable :=
          map (\<lambda>e. if emailRowId e = eid then f e else e) (customerEmailTable db)\<rparr>"

text \<open>Step 5: the order data; an error of the order lookup leaves it empty.\<close>

definition ordersByEmail :: "Env \<Rightarrow> GmailEmail \<Rightarrow> ShopifyOrder list" where
  "ordersByEmail env email =
     (case findOrdersByEmail env (fromEmail email) of
        Inr orders \<Rightarrow> orders
      | Inl err \<Rightarrow> [])"

definition lookupOrders :: "Env \<Rightarrow> GmailEmail \<Rightarrow> string option \<Rightarrow> ShopifyOrder list" where
  "lookupOrders env email orderNo =
     (case orderNo of
        Some n \<Rightarrow>
          if n \<noteq> []
          then (case findOrderByNumber env n of Some order \<Rightarrow> [order] | None \<Rightarrow> [])
          else ordersByEmail env email
      | None \<Rightarrow> ordersByEmail env email)"

definition determinePriority :: "string \<Rightarrow> string \<Rightarrow> string" where
  "determinePriority cat content =
     (let urgentKeywords = [''urgent'', ''asap'', ''immediately'', ''broken'', ''damaged'',
                            ''wrong'', ''missing''];
          highKeywords = [''return'', ''refund'', ''complaint'', ''problem'', ''issue''];
          lowerContent = toLowerCase content
      in if list_ex (\<lambda>keyword. js_includes lowerContent keyword) urgentKeywords then ''URGENT''
         else if cat = ''PRODUCT_ISSUE''
                 \<or> list_ex (\<lambda>keyword. js_includes lowerContent keyword) highKeywords
           then ''HIGH''
         else if cat = ''RETURN_REFUND'' then ''HIGH''
         else ''NORMAL'')"

text \<open>Step 10: the escalation decision.\<close>

definition decideEscalation :: "AIGeneratedResponse \<Rightarrow> ValidationResult \<Rightarrow> bool" where
  "decideEscalation aiResponse validation =
     (shouldEscalate aiResponse \<or> \<not> isValid validation \<or> score validation < 0.6)"

text \<open>Step 11: the text to store, and whether it is the intelligent fallback.\<close>

definition chooseFinalResponse ::
    "Env \<Rightarrow> GmailEmail \<Rightarrow> ShopifyOrder list \<Rightarrow> SimilarResponse list \<Rightarrow> string
       \<Rightarrow> AIGeneratedResponse \<Rightarrow> bool \<Rightarrow> string \<times> bool" where
  "chooseFinalResponse env email orders similar cat aiResponse shouldEsc =
     (if shouldEsc
      then (let intelligentFallback =
                  generateFallbackResponse (toLocaleDateString (runtime env))
                    \<lparr>customerQuery = body email,
                     customerEmail = fromEmail email,
                     customerName = Some (fromName email),
                     orderData = Some orders,
                     similarResponses = Some similar,
                     category = Some cat,
                     contextNote = None\<rparr>
                    ''escalation''
            in (response intelligentFallback, True))
      else (response aiResponse, False))"

text \<open>Step 12: send the reply, or create a draft.\<close>

definition deliver ::
    "Env \<Rightarrow> GmailEmail \<Rightarrow> AIResponseRow \<Rightarrow> bool \<Rightarrow> bool \<Rightarrow> Database
       \<Rightarrow> Database \<times> Effect list" where
  "deliver env email savedResponse shouldEsc isIntelligentFallback db =
     (let shouldSendDirectly = (\<not> shouldEsc \<or> isIntelligentFallback)
      in if shouldSendDirectly
         then (let emailSent = sendReply env (fromEmail email) (''Re: '' @ subject email)
                                 (responseText savedResponse) (threadId email);
                   db' = (if emailSent
                          then updateResponse (responseRowId savedResponse)
                                 (\<lambda>r. r\<lparr>sentViaGmail := True, sentAt := Some (now env)\<rparr>) db
                          else db)
               in (db', [SendReply (fromEmail email) (''Re: '' @ subject email)
                           (responseText savedResponse) (threadId email)]))
         else (db, [CreateDraft (fromEmail email) (''Re: '' @ subject email)
                      (responseText savedResponse) (threadId email)]))"

text \<open>
  \<open>processEmail\<close> returns the store after the run, the calls made on the mailbox and
  the provider, and the result. The call of \<^verbatim>\<open>extractQueryInfo\<close> is left out: its
  result is not used and it catches its own errors. With a store that answers every
  query the one step of the \<^verbatim>\<open>try\<close> block that can hand on an error is
  \<open>generateResponse\<close>; the \<^verbatim>\<open>catch\<close> block turns it into a failure result.
\<close>

definition processEmail ::
    "Env \<Rightarrow> Database \<Rightarrow> GmailEmail \<Rightarrow> Database \<times> Effect list \<times> EmailProcessResult" where
  "processEmail env db email =
     (case find (\<lambda>e. gmailMessageId e = messageId email) (customerEmailTable db) of
        Some existingEmail \<Rightarrow>
          (db, [], \<lparr>success = True, resultEscalated = False,
                    message = Some ''Email already processed'', errorText = None,
                    resultResponseId = None, resultConfidence = None\<rparr>)
      | None \<Rightarrow>
          (let (db1, conversation) = findOrCreateConversation db email;
               (db2, savedEmail) = saveEmail db1 email conversation;
               orderNo = extractOrderNumber (body email);
               db3 = (if truthy orderNo \<and> \<not> truthy (shopifyOrderId conversation)
                      then updateConversation (conversationId conversation)
                             (\<lambda>c. c\<lparr>shopifyOrderId := orderNo\<rparr>) db2
                      else db2);
               orders = lookupOrders env email orderNo;
               cat = classifyQuery env (body email);
               similar = searchSimilarResponses env (body email) 3;
               params = \<lparr>customerQuery = body email,
                         customerEmail = fromEmail email,
                         customerName = Some (fromName email),
                         orderData = Some orders,
                         similarResponses = Some similar,
                         category = Some cat,
                         contextNote = Some (''Subject: '' @ subject email)\<rparr>
           in case generateResponse (runtime env) params (completionsCreate env) of
                (Inl err, calls) \<Rightarrow>
                  (db3, calls,
                   \<lparr>success = False, resultEscalated = False, message = None,
                    errorText = Some ''Unknown error'', resultResponseId = None,
                    resultConfidence = None\<rparr>)
              | (Inr aiResponse, calls) \<Rightarrow>
                  (let validation = validateResponse (response aiResponse);
                       shouldEsc = decideEscalation aiResponse validation;
                       (finalResponse, isIntelligentFallback) =
                         chooseFinalResponse env email orders similar cat aiResponse shouldEsc;
                       savedResponse = \<lparr>responseRowId = length (aIResponseTable db3),
                                        responseText = finalResponse,
                                        rowConfidence = confidence aiResponse,
                                        sentViaGmail = False,
                                        humanReviewed = shouldEsc,
                                        escalated = shouldEsc,
                                        sentAt = None,
                                        responseConversationId = conversationId conversation,
                                        shopifyData = (if length orders > 0 then Some orders
                                                       else None),
                                        ragSources = (if length similar > 0 then Some similar
                                                      else None),
                                        rowPromptUsed = promptUsed aiResponse\<rparr>;
                       db4 = db3\<lparr>aIResponseTable := aIResponseTable db3 @ [savedResponse]\<rparr>;
                       (db5, mail) = deliver env email savedResponse shouldEsc
                                       isIntelligentFallback db4;
                       db6 = updateConversation (conversationId conversation)
                               (\<lambda>c. c\<lparr>conversationStatus :=
                                         (if shouldEsc then ''ESCALATED'' else ''ACTIVE''),
                                       priority := determinePriority cat (body email),
                                       updatedAt := Some (now env)\<rparr>) db5;
                       db7 = updateEmail (emailRowId savedEmail) (\<lambda>e. e\<lparr>processed := True\<rparr>) db6
                   in (db7, calls @ mail,
                       \<lparr>success = True, resultEscalated = shouldEsc,
                        message = Some (if shouldEsc then ''Email escalated for human review''
                                        else ''Automated response sent successfully''),
                        errorText = None,
                        resultResponseId = Some (responseRowId savedResponse),
                        resultConfidence = Some (confidence aiResponse)\<rparr>))))"

section \<open>The notions of the specification\<close>

text \<open>The text \<open>s\<close> contains \<open>w\<close>.\<close>

definition occursIn :: "string \<Rightarrow> string \<Rightarrow> bool" where
  "occursIn w s = (\<exists>pre post. s = pre @ w @ post)"

text \<open>The text contains \<open>w\<close> in some mix of upper and lower case.\<close>

definition containsCI :: "string \<Rightarrow> string \<Rightarrow> bool" where
  "containsCI w s = (\<exists>pre u post. s = pre @ u @ post \<and> map canon u = map canon w)"

text \<open>The text contains \<open>l\<close> and, later on the same line, \<open>r\<close>.\<close>

definition containsBracketed :: "string \<Rightarrow> string \<Rightarrow> string \<Rightarrow> bool" where
  "containsBracketed l r s =
     (\<exists>pre mid post. s = pre @ l @ mid @ r @ post \<and> list_all (\<lambda>c. \<not> isLineTerminator c) mid)"

text \<open>The placeholder markers of the validator.\<close>

definition hasPlaceholderMarker :: "string \<Rightarrow> bool" where
  "hasPlaceholderMarker s =
     (containsBracketed ''['' '']'' s \<or> containsBracketed ''{{'' ''}}'' s
      \<or> containsCI ''PLACEHOLDER'' s \<or> containsCI ''TODO'' s \<or> containsCI ''XXX'' s)"

text \<open>A lower-case ASCII letter or a space: the characters of the courtesy words.\<close>

definition lowerOrSpace :: "char \<Rightarrow> bool" where
  "lowerOrSpace p = (isLower p \<or> codeUnit p = 32)"

text \<open>
  The courtesy words, and a text that holds one of them in some mix of upper and lower
  case.
\<close>

definition courtesyWords :: "string list" where
  "courtesyWords = [''thank you'', ''appreciate'', ''help'', ''assist'', ''sorry'', ''apologize'']"

definition hasCourtesyWord :: "string \<Rightarrow> bool" where
  "hasCourtesyWord t = (\<exists>w. w \<in> set courtesyWords \<and> containsCI w t)"

text \<open>
  An order-number pattern: \<^verbatim>\<open>#\<close> and a digit, or "order" (in any case) and, later on
  the same line, a digit.
\<close>

definition hasOrderNumberPattern :: "string \<Rightarrow> bool" where
  "hasOrderNumberPattern t =
     ((\<exists>pre d post. t = pre @ ''#'' @ [d] @ post \<and> isDigit d)
      \<or> (\<exists>pre u mid d post. t = pre @ u @ mid @ [d] @ post
            \<and> map canon u = map canon ''order''
            \<and> list_all (\<lambda>c. \<not> isLineTerminator c) mid \<and> isDigit d))"

text \<open>The number of hard issues and the number of warnings of a text.\<close>

definition issueCount :: "string \<Rightarrow> nat" where
  "issueCount t = (if length t < 30 then 1 else 0) + (if hasPlaceholderMarker t then 1 else 0)"

definition warningCount :: "string \<Rightarrow> nat" where
  "warningCount t =
     (if length t > 1000 then 1 else 0)
     + (if hasCourtesyWord t then 0 else 1)
     + (if occursIn ''your order'' t \<and> \<not> hasOrderNumberPattern t then 1 else 0)"

text \<open>The mean similarity of the evidence, and the score of a reply before it is clamped.\<close>

definition meanSimilarity :: "SimilarResponse list \<Rightarrow> real" where
  "meanSimilarity rs = sum_list (map similarity rs) / real (length rs)"

definition mentionsOrderHash :: "string \<Rightarrow> bool" where
  "mentionsOrderHash s =
     (\<exists>pre u mid d post. s = pre @ u @ mid @ ''#'' @ [d] @ post
        \<and> map canon u = map canon ''order''
        \<and> list_all (\<lambda>c. \<not> isLineTerminator c) mid \<and> isDigit d)"

definition mentionsDetail :: "string \<Rightarrow> bool" where
  "mentionsDetail s =
     (containsCI ''tracking'' s \<or> mentionsOrderHash s
      \<or> containsCI ''delivery'' s \<or> containsCI ''shipping'' s)"

definition scoreBeforeClamp ::
    "string \<Rightarrow> ShopifyOrder list option \<Rightarrow> SimilarResponse list option \<Rightarrow> real" where
  "scoreBeforeClamp r od sims =
     0.5
     + (if hasOrderData od then 0.3 else 0)
     + (case sims of None \<Rightarrow> 0 | Some rs \<Rightarrow> if rs = [] then 0 else meanSimilarity rs * 0.2)
     - (if length r < 50 then 0.2 else 0)
     - (if occursIn ''['' r \<or> occursIn ''{{'' r \<or> occursIn ''PLACEHOLDER'' r then 0.3 else 0)
     + (if mentionsDetail r then 0.1 else 0)"

text \<open>
  The text contains one of the terms as a word: no word character stands right before
  it or right after it. Every term of the classifier starts and ends with a word
  character.
\<close>

definition containsTerm :: "string list \<Rightarrow> string \<Rightarrow> bool" where
  "containsTerm ws s =
     (\<exists>w pre post. w \<in> set ws \<and> s = pre @ w @ post
        \<and> \<not> isWordOpt (lastOpt pre) \<and> \<not> isWordOpt (headOpt post))"

definition wordTerms :: "string list \<Rightarrow> bool" where
  "wordTerms ws = list_all (\<lambda>w. isWordOpt (headOpt w) \<and> isWordOpt (lastOpt w)) ws"

text \<open>The text holds a number of four digits or more that stands alone as a word.\<close>

definition hasStandaloneNumber :: "string \<Rightarrow> bool" where
  "hasStandaloneNumber s =
     (\<exists>pre g post. s = pre @ g @ post \<and> length g \<ge> 4 \<and> list_all isDigit g
        \<and> \<not> isWordOpt (lastOpt pre) \<and> \<not> isWordOpt (headOpt post))"

text \<open>The calls that create a draft, the result of a repeated run, and a stored reply that is either escalated or passed validation with a confidence of 0.7 or more.\<close>

fun isCreateDraft :: "Effect \<Rightarrow> bool" where
  "isCreateDraft (CreateDraft a b c d) = True"
| "isCreateDraft x = False"

definition alreadyProcessed :: EmailProcessResult where
  "alreadyProcessed = \<lparr>success = True, resultEscalated = False,
     message = Some ''Email already processed'', errorText = None,
     resultResponseId = None, resultConfidence = None\<rparr>"

definition replyJustified :: "AIResponseRow \<Rightarrow> bool" where
  "replyJustified r =
     (escalated r
      \<or> (isValid (validateResponse (responseText r))
          \<and> score (validateResponse (responseText r)) \<ge> 0.6
          \<and> rowConfidence r \<ge> 0.7))"

text \<open>
  The parameters \<open>processEmail\<close> passes to \<open>generateResponse\<close>, and those it passes to
  the fallback once it has decided to escalate.
\<close>

definition escalationParams :: "Env \<Rightarrow> GmailEmail \<Rightarrow> GenerateParams" where
  "escalationParams env email =
     \<lparr>customerQuery = body email, customerEmail = fromEmail email,
      customerName = Some (fromName email),
      orderData = Some (lookupOrders env email (extractOrderNumber (body email))),
      similarResponses = Some (searchSimilarResponses env (body email) 3),
      category = Some (classifyQuery env (body email)),
      contextNote = None\<rparr>"

definition requestParams :: "Env \<Rightarrow> GmailEmail \<Rightarrow> GenerateParams" where
  "requestParams env email =
     (escalationParams env email)\<lparr>contextNote := Some (''Subject: '' @ subject email)\<rparr>"



definition courteousText :: string where
  "courteousText = ''Thank you for your message, we will help you shortly.''"

definition brokenText :: string where
  "brokenText = ''[x]''"

definition everyPenaltyText :: string where
  "everyPenaltyText = ''[{{PLACEHOLDER''"

definition shippedDisappointed :: string where
  "shippedDisappointed = ''It SHIPPED late and I am disappointed''"

definition urgentQuestion :: string where
  "urgentQuestion = ''This is URGENT, what colours do you have?''"

definition plainRuntime :: Runtime where
  "plainRuntime = \<lparr>toLocaleDateString = (\<lambda>s. s), numberToString = (\<lambda>n. ''n''),
     percentToFixed1 = (\<lambda>x. ''x''), buildPrompt = (\<lambda>p. Some (customerQuery p))\<rparr>"

definition brokenRuntime :: Runtime where
  "brokenRuntime = plainRuntime\<lparr>buildPrompt := (\<lambda>p. None)\<rparr>"

definition rateLimited :: ApiError where
  "rateLimited = \<lparr>status = Some 429, code = None\<rparr>"

definition refundParams :: GenerateParams where
  "refundParams = \<lparr>customerQuery = ''I would like a refund for my glasses'',
     customerEmail = ''ann@example.com'', customerName = Some ''Ann'', orderData = None,
     similarResponses = None, category = None, contextNote = None\<rparr>"

definition orderExample :: string where
  "orderExample = ''My order #BLG-2024-001 hasn't arrived''"

definition phoneText :: string where
  "phoneText = ''Please call me at 5551234 today''"

definition plainQuestion :: string where
  "plainQuestion = ''Do you sell sunglasses?''"

definition sampleOrder :: ShopifyOrder where
  "sampleOrder = \<lparr>orderNumber = ''1001'', fulfillmentStatus = ''shipped'',
     fulfillments = [\<lparr>trackingCompany = ''FedEx'', trackingNumbers = [''123''],
                      estimatedDeliveryAt = []\<rparr>]\<rparr>"

definition sampleEnv :: Env where
  "sampleEnv = \<lparr>runtime = plainRuntime,
     findOrderByNumber = (\<lambda>n. None),
     findOrdersByEmail = (\<lambda>e. Inr [sampleOrder]),
     classifyQuery = (\<lambda>q. ''TRACKING''),
     searchSimilarResponses = (\<lambda>q k. []),
     completionsCreate = (\<lambda>p. Completed
        (Some ''Thank you for your message. Your order #1001 has shipped with tracking number 123.'')
        (Some 42)),
     sendReply = (\<lambda>a b c d. True),
     createDraft = (\<lambda>a b c d. None),
     now = 7\<rparr>"

definition failingEnv :: Env where
  "failingEnv = sampleEnv\<lparr>completionsCreate := (\<lambda>p. Failed rateLimited)\<rparr>"

definition emptyDatabase :: Database where
  "emptyDatabase = \<lparr>customerEmailTable = [], conversationTable = [], aIResponseTable = []\<rparr>"

definition sampleEmail :: GmailEmail where
  "sampleEmail = \<lparr>messageId = ''m1'', threadId = ''t1'', subject = ''Tracking'',
     fromEmail = ''ann@example.com'', fromName = ''Ann'',
     body = ''Can you give me tracking for my order?'', htmlBody = [], receivedAt = 1\<rparr>"

definition complaintEmail :: GmailEmail where
  "complaintEmail = \<lparr>messageId = ''m2'', threadId = ''t2'', subject = ''Glasses'',
     fromEmail = ''bob@example.com'', fromName = ''Bob'',
     body = ''The frame is terrible, I want a refund'', htmlBody = [], receivedAt = 2\<rparr>"

definition trackingParams :: GenerateParams where
  "trackingParams = \<lparr>customerQuery = ''Can you give me tracking for my order?'',
     customerEmail = ''ann@example.com'', customerName = Some ''Ann'',
     orderData = Some [sampleOrder], similarResponses = None, category = None,
     contextNote = None\<rparr>"

definition paramsFor :: "string \<Rightarrow> GenerateParams" where
  "paramsFor q = \<lparr>customerQuery = q, customerEmail = ''ann@example.com'',
     customerName = Some ''Ann'', orderData = None, similarResponses = None,
     category = None, contextNote = None\<rparr>"

definition statusQuestion :: string where
  "statusQuestion = ''Where is my package?''"

definition trackingQuestion :: string where
  "trackingQuestion = ''Can you give me tracking for my order?''"

definition refundRequest :: string where
  "refundRequest = ''I would like a refund for my glasses''"

definition frameQuestion :: string where
  "frameQuestion = ''Which frame do you suggest?''"

definition unhappyNote :: string where
  "unhappyNote = ''I am very unhappy with the glasses''"

definition greetingNote :: string where
  "greetingNote = ''Hello there''"

definition shippedProblems :: string where
  "shippedProblems = ''It shipped but I have problems''"

definition urgentlyNote :: string where
  "urgentlyNote = ''I urgently need it''"


definition brokenEnv :: Env where
  "brokenEnv = sampleEnv\<lparr>runtime := brokenRuntime\<rparr>"

section \<open>Searching a text\<close>

lemma existsSuffix_iff: "existsSuffix m s \<longleftrightarrow> (\<exists>pre t. s = pre @ t \<and> m t)"
proof (induction s)
  case Nil
  then show ?case by simp
next
  case (Cons c cs)
  show ?case
  proof
    assume "existsSuffix m (c # cs)"
    then consider "m (c # cs)" | "existsSuffix m cs" by auto
    then show "\<exists>pre t. c # cs = pre @ t \<and> m t"
    proof cases
      case 1
      then have "c # cs = [] @ (c # cs) \<and> m (c # cs)" by simp
      then show ?thesis by blast
    next
      case 2
      with Cons.IH obtain pre t where "cs = pre @ t" "m t" by blast
      then have "c # cs = (c # pre) @ t \<and> m t" by simp
      then show ?thesis by blast
    qed
  next
    assume "\<exists>pre t. c # cs = pre @ t \<and> m t"
    then obtain pre t where pt: "c # cs = pre @ t" "m t" by blast
    show "existsSuffix m (c # cs)"
    proof (cases pre)
      case Nil
      with pt have "t = c # cs" by simp
      with pt(2) show ?thesis by simp
    next
      case (Cons p ps)
      with pt have "cs = ps @ t" by simp
      with pt(2) Cons.IH show ?thesis by auto
    qed
  qed
qed

lemma js_startsWith_iff: "js_startsWith p t \<longleftrightarrow> (\<exists>post. t = p @ post)"
  by (induction p t rule: js_startsWith.induct) auto

lemma startsWithCI_iff:
  "startsWithCI p t \<longleftrightarrow> (\<exists>u post. t = u @ post \<and> map canon u = map canon p)"
proof (induction p t rule: startsWithCI.induct)
  case (1 s)
  then show ?case by simp
next
  case (2 p ps)
  then show ?case by simp
next
  case (3 p ps c cs)
  show ?case
  proof
    assume "startsWithCI (p # ps) (c # cs)"
    then have a: "canon p = canon c" and "startsWithCI ps cs" by simp_all
    with 3 obtain u post where "cs = u @ post" "map canon u = map canon ps" by blast
    with a have "c # cs = (c # u) @ post \<and> map canon (c # u) = map canon (p # ps)" by simp
    then show "\<exists>u post. c # cs = u @ post \<and> map canon u = map canon (p # ps)" by blast
  next
    assume "\<exists>u post. c # cs = u @ post \<and> map canon u = map canon (p # ps)"
    then obtain u post where up: "c # cs = u @ post" "map canon u = map canon (p # ps)" by blast
    then obtain v where v: "u = c # v" by (cases u) auto
    with up have "cs = v @ post" "map canon v = map canon ps" "canon c = canon p" by simp_all
    with 3 show "startsWithCI (p # ps) (c # cs)" by auto
  qed
qed

lemma dotStar_iff:
  "dotStar k t \<longleftrightarrow> (\<exists>mid rest. t = mid @ rest \<and> list_all (\<lambda>c. \<not> isLineTerminator c) mid \<and> k rest)"
proof (induction t)
  case Nil
  then show ?case by simp
next
  case (Cons c cs)
  show ?case
  proof
    assume "dotStar k (c # cs)"
    then consider "k (c # cs)" | "\<not> isLineTerminator c" "dotStar k cs" by auto
    then show "\<exists>mid rest. c # cs = mid @ rest \<and> list_all (\<lambda>c. \<not> isLineTerminator c) mid \<and> k rest"
    proof cases
      case 1
      then have "c # cs = [] @ (c # cs) \<and> list_all (\<lambda>c. \<not> isLineTerminator c) [] \<and> k (c # cs)"
        by simp
      then show ?thesis by blast
    next
      case 2
      with Cons.IH obtain mid rest where
        "cs = mid @ rest" "list_all (\<lambda>c. \<not> isLineTerminator c) mid" "k rest" by blast
      with 2 have "c # cs = (c # mid) @ rest \<and> list_all (\<lambda>c. \<not> isLineTerminator c) (c # mid) \<and> k rest"
        by simp
      then show ?thesis by blast
    qed
  next
    assume "\<exists>mid rest. c # cs = mid @ rest \<and> list_all (\<lambda>c. \<not> isLineTerminator c) mid \<and> k rest"
    then obtain mid rest where mr:
      "c # cs = mid @ rest" "list_all (\<lambda>c. \<not> isLineTerminator c) mid" "k rest" by blast
    show "dotStar k (c # cs)"
    proof (cases mid)
      case Nil
      with mr have "rest = c # cs" by simp
      with mr(3) show ?thesis by simp
    next
      case (Cons m ms)
      with mr have "cs = ms @ rest" "m = c" "list_all (\<lambda>c. \<not> isLineTerminator c) ms"
        "\<not> isLineTerminator c" by simp_all
      with mr(3) Cons.IH show ?thesis by auto
    qed
  qed
qed

lemma bracketed_iff:
  "existsSuffix (\<lambda>t. js_startsWith l t \<and> dotStar (js_startsWith r) (drop (length l) t)) s
     \<longleftrightarrow> containsBracketed l r s"
proof
  assume "existsSuffix (\<lambda>t. js_startsWith l t \<and> dotStar (js_startsWith r) (drop (length l) t)) s"
  then obtain pre t where s: "s = pre @ t" and sw: "js_startsWith l t"
    and ds: "dotStar (js_startsWith r) (drop (length l) t)"
    unfolding existsSuffix_iff by blast
  from sw obtain u where t: "t = l @ u" unfolding js_startsWith_iff by blast
  with ds have "dotStar (js_startsWith r) u" by simp
  then obtain mid rest where u: "u = mid @ rest"
    and mid: "list_all (\<lambda>c. \<not> isLineTerminator c) mid" and "js_startsWith r rest"
    unfolding dotStar_iff by blast
  then obtain post where "rest = r @ post" unfolding js_startsWith_iff by blast
  with s t u have "s = pre @ l @ mid @ r @ post" by simp
  with mid show "containsBracketed l r s" unfolding containsBracketed_def by blast
next
  assume "containsBracketed l r s"
  then obtain pre mid post where s: "s = pre @ l @ mid @ r @ post"
    and mid: "list_all (\<lambda>c. \<not> isLineTerminator c) mid"
    unfolding containsBracketed_def by blast
  have "js_startsWith r (r @ post)" unfolding js_startsWith_iff by blast
  with mid have "dotStar (js_startsWith r) (mid @ r @ post)" unfolding dotStar_iff by blast
  then have "dotStar (js_startsWith r) (drop (length l) (l @ mid @ r @ post))" by simp
  moreover have "js_startsWith l (l @ mid @ r @ post)" unfolding js_startsWith_iff by blast
  ultimately show "existsSuffix (\<lambda>t. js_startsWith l t \<and> dotStar (js_startsWith r) (drop (length l) t)) s"
    unfolding existsSuffix_iff using s by blast
qed

lemma containsCI_iff: "existsSuffix (startsWithCI w) s \<longleftrightarrow> containsCI w s"
  unfolding existsSuffix_iff startsWithCI_iff containsCI_def by blast

lemma existsSuffix_or:
  "existsSuffix (\<lambda>t. p t \<or> q t) s \<longleftrightarrow> existsSuffix p s \<or> existsSuffix q s"
  by (induction s) auto

lemma square_marker_iff:
  "existsSuffix (\<lambda>t. js_startsWith ''['' t \<and> dotStar (js_startsWith '']'') (drop 1 t)) s
     \<longleftrightarrow> containsBracketed ''['' '']'' s"
  using bracketed_iff [of "''[''" "'']''" s] by simp

lemma curly_marker_iff:
  "existsSuffix (\<lambda>t. js_startsWith ''{{'' t \<and> dotStar (js_startsWith ''}}'') (drop 2 t)) s
     \<longleftrightarrow> containsBracketed ''{{'' ''}}'' s"
  using bracketed_iff [of "''{{''" "''}}''" s] by (simp add: numeral_2_eq_2)

lemma placeholderRe_iff: "placeholderRe s \<longleftrightarrow> hasPlaceholderMarker s"
  unfolding placeholderRe_def placeholderAt_def existsSuffix_or
    square_marker_iff curly_marker_iff containsCI_iff hasPlaceholderMarker_def
  by (rule refl)

section \<open>The confidence scorer: claim C5\<close>

lemma js_includes_iff: "js_includes s w \<longleftrightarrow> occursIn w s"
  unfolding js_includes_def existsSuffix_iff js_startsWith_iff occursIn_def by blast

lemma foldl_similarity:
  "foldl (\<lambda>sum r. sum + similarity r) a rs = a + sum_list (map similarity rs)"
  by (induction rs arbitrary: a) simp_all

lemma avgSimilarity_mean: "avgSimilarity rs = meanSimilarity rs"
  by (simp add: avgSimilarity_def meanSimilarity_def foldl_similarity)

lemma hashDigits_iff: "hashDigits t \<longleftrightarrow> (\<exists>d post. t = ''#'' @ [d] @ post \<and> isDigit d)"
proof
  assume "hashDigits t"
  then obtain rest where t: "t = ''#'' @ rest" and "startsWithDigit rest"
    unfolding hashDigits_def js_startsWith_iff by auto
  then obtain d post where "rest = d # post" "isDigit d"
    by (auto simp: startsWithDigit_def split: list.splits)
  with t show "\<exists>d post. t = ''#'' @ [d] @ post \<and> isDigit d" by simp
next
  assume "\<exists>d post. t = ''#'' @ [d] @ post \<and> isDigit d"
  then show "hashDigits t"
    by (auto simp: hashDigits_def startsWithDigit_def)
qed

lemma canon_length: "map canon u = map canon w \<Longrightarrow> length u = length w"
  using map_eq_imp_length_eq by blast

lemma orderHash_iff:
  "existsSuffix (\<lambda>t. startsWithCI ''order'' t \<and> dotStar hashDigits (drop 5 t)) s
     \<longleftrightarrow> mentionsOrderHash s"
proof
  assume "existsSuffix (\<lambda>t. startsWithCI ''order'' t \<and> dotStar hashDigits (drop 5 t)) s"
  then obtain pre t where s: "s = pre @ t" and sw: "startsWithCI ''order'' t"
    and ds: "dotStar hashDigits (drop 5 t)"
    unfolding existsSuffix_iff by blast
  from sw obtain u rest where t: "t = u @ rest" and u: "map canon u = map canon ''order''"
    unfolding startsWithCI_iff by blast
  from u have "length u = 5" using canon_length [of u "''order''"] by simp
  with t ds have "dotStar hashDigits rest" by simp
  then obtain mid tl where rest: "rest = mid @ tl"
    and mid: "list_all (\<lambda>c. \<not> isLineTerminator c) mid" and "hashDigits tl"
    unfolding dotStar_iff by blast
  then obtain d post where "tl = ''#'' @ [d] @ post" "isDigit d"
    unfolding hashDigits_iff by blast
  with s t rest have "s = pre @ u @ mid @ ''#'' @ [d] @ post" by simp
  with u mid \<open>isDigit d\<close> show "mentionsOrderHash s"
    unfolding mentionsOrderHash_def by blast
next
  assume "mentionsOrderHash s"
  then obtain pre u mid d post where s: "s = pre @ u @ mid @ ''#'' @ [d] @ post"
    and u: "map canon u = map canon ''order''"
    and mid: "list_all (\<lambda>c. \<not> isLineTerminator c) mid" and d: "isDigit d"
    unfolding mentionsOrderHash_def by blast
  let ?t = "u @ mid @ ''#'' @ [d] @ post"
  from u have len: "length u = 5" using canon_length [of u "''order''"] by simp
  from d have "hashDigits (''#'' @ [d] @ post)" unfolding hashDigits_iff by blast
  with mid have "dotStar hashDigits (mid @ ''#'' @ [d] @ post)" unfolding dotStar_iff by blast
  with len have "dotStar hashDigits (drop 5 ?t)" by simp
  moreover from u have "startsWithCI ''order'' ?t" unfolding startsWithCI_iff by blast
  ultimately show "existsSuffix (\<lambda>t. startsWithCI ''order'' t \<and> dotStar hashDigits (drop 5 t)) s"
    unfolding existsSuffix_iff using s by blast
qed

lemma detailRe_iff: "detailRe s \<longleftrightarrow> mentionsDetail s"
  unfolding detailRe_def detailAt_def existsSuffix_or orderHash_iff containsCI_iff
    mentionsDetail_def
  by (rule refl)

lemma containsPlaceholderText_iff:
  "containsPlaceholderText r
     \<longleftrightarrow> occursIn ''['' r \<or> occursIn ''{{'' r \<or> occursIn ''PLACEHOLDER'' r"
  by (simp add: containsPlaceholderText_def js_includes_iff)

lemma if_plus: "(if P then x + k else x) = x + (if P then k else (0::real))"
  by simp
lemma if_minus: "(if P then x - k else x) = x - (if P then k else (0::real))"
  by simp

text \<open>
  C5. The confidence of a reply starts at 0.5; 0.3 is added when there is order data;
  the mean similarity of the evidence times 0.2 is added when there is evidence; 0.2 is
  taken off a text shorter than 50; 0.3 is taken off a text that contains \<^verbatim>\<open>[\<close>,
  \<^verbatim>\<open>{{\<close> or PLACEHOLDER; 0.1 is added when the text mentions tracking, an order with
  \<^verbatim>\<open>#\<close> and a digit, delivery or shipping. The result is clamped, so it lies between
  0 and 1 for every input.
\<close>

theorem calculateConfidence_spec:
  "calculateConfidence r od sims = max 0 (min 1 (scoreBeforeClamp r od sims))
   \<and> 0 \<le> calculateConfidence r od sims \<and> calculateConfidence r od sims \<le> 1"
proof -
  have "calculateConfidence r od sims = max 0 (min 1 (scoreBeforeClamp r od sims))"
  proof (cases sims)
    case None
    then show ?thesis
      unfolding calculateConfidence_def scoreBeforeClamp_def Let_def
        containsPlaceholderText_iff detailRe_iff if_plus if_minus
      by (simp split del: if_split)
  next
    case (Some rs)
    show ?thesis
    proof (cases "rs = []")
      case True
      with Some show ?thesis
        unfolding calculateConfidence_def scoreBeforeClamp_def Let_def
          containsPlaceholderText_iff detailRe_iff if_plus if_minus
        by (simp split del: if_split)
    next
      case False
      with Some show ?thesis
        unfolding calculateConfidence_def scoreBeforeClamp_def Let_def
          containsPlaceholderText_iff detailRe_iff avgSimilarity_mean if_plus if_minus
        by (simp split del: if_split)
    qed
  qed
  then show ?thesis by simp
qed

theorem calculateConfidence_spec_witness:
  "calculateConfidence [] None None = 0.3
   \<and> scoreBeforeClamp everyPenaltyText None None = 0
   \<and> calculateConfidence everyPenaltyText None None = 0"
proof -
  have i: "\<not> js_includes [] ''[''" "\<not> js_includes [] ''{{''" "\<not> js_includes [] ''PLACEHOLDER''"
    "\<not> detailRe []" by code_simp+
  have a: "scoreBeforeClamp [] None None = 0.3"
    using i by (simp add: scoreBeforeClamp_def js_includes_iff [symmetric] detailRe_iff [symmetric]
        hasOrderData_def)
  have j: "js_includes everyPenaltyText ''[''" "\<not> detailRe everyPenaltyText"
    unfolding everyPenaltyText_def by code_simp+
  have b: "scoreBeforeClamp everyPenaltyText None None = 0"
    using j by (simp add: scoreBeforeClamp_def js_includes_iff [symmetric] detailRe_iff [symmetric]
        hasOrderData_def everyPenaltyText_def)
  show ?thesis
    using calculateConfidence_spec [of "[]" None None]
      calculateConfidence_spec [of everyPenaltyText None None] a b by simp
qed

lemma codeUnit_eq_iff: "c = d \<longleftrightarrow> codeUnit c = codeUnit d"
  by (simp add: codeUnit_def)

lemma codeUnit_less: "codeUnit c < 256"
  by (simp add: codeUnit_def)

lemma codeUnit_toLowerChar:
  "codeUnit (toLowerChar c)
     = (if isUpper c \<or> (192 \<le> codeUnit c \<and> codeUnit c \<le> 222 \<and> codeUnit c \<noteq> 215)
        then codeUnit c + 32 else codeUnit c)"
  by (auto simp: toLowerChar_def codeUnit_def isUpper_def)

lemma codeUnit_canon:
  "codeUnit (canon c) = (if isLower c then codeUnit c - 32 else codeUnit c)"
proof (cases "isLower c")
  case True
  have "codeUnit c - 32 < 256" using codeUnit_less [of c] by arith
  with True show ?thesis by (simp add: canon_def codeUnit_def)
next
  case False
  then show ?thesis by (simp add: canon_def)
qed

lemma lower_match:
  assumes "lowerOrSpace p"
  shows "toLowerChar c = p \<longleftrightarrow> canon p = canon c"
  using assms codeUnit_less [of c]
  unfolding codeUnit_eq_iff [of "toLowerChar c"] codeUnit_eq_iff [of "canon p"]
    codeUnit_toLowerChar codeUnit_canon lowerOrSpace_def isLower_def isUpper_def
  by auto

lemma startsWith_lowered:
  "list_all lowerOrSpace w \<Longrightarrow> js_startsWith w (map toLowerChar t) = startsWithCI w t"
proof (induction w t rule: startsWithCI.induct)
  case (3 p ps c cs)
  then show ?case using lower_match [of p c] by auto
qed simp_all

lemma existsSuffix_map:
  "existsSuffix m (map f t) = existsSuffix (\<lambda>s. m (map f s)) t"
  by (induction t) simp_all

lemma includes_lowered:
  assumes "list_all lowerOrSpace w"
  shows "js_includes (toLowerCase t) w \<longleftrightarrow> containsCI w t"
  unfolding js_includes_def toLowerCase_def existsSuffix_map
    startsWith_lowered [OF assms] containsCI_iff ..

lemma courtesyWords_lower: "list_all (list_all lowerOrSpace) courtesyWords"
  by code_simp

lemma professional_courtesy: "hasProffessionalTone t \<longleftrightarrow> hasCourtesyWord t"
proof -
  have same: "professionalWords = courtesyWords"
    by (simp add: professionalWords_def courtesyWords_def)
  have "js_includes (toLowerCase t) w \<longleftrightarrow> containsCI w t" if "w \<in> set courtesyWords" for w
    using that courtesyWords_lower includes_lowered by (simp add: list_all_iff)
  then show ?thesis
    unfolding hasProffessionalTone_def hasCourtesyWord_def same list_ex_iff by blast
qed

lemma hashDigit_iff:
  "existsSuffix (\<lambda>t. js_startsWith ''#'' t \<and> startsWithDigit (drop 1 t)) s
     \<longleftrightarrow> (\<exists>pre d post. s = pre @ ''#'' @ [d] @ post \<and> isDigit d)"
proof -
  have "existsSuffix hashDigits s \<longleftrightarrow> (\<exists>pre d post. s = pre @ ''#'' @ [d] @ post \<and> isDigit d)"
    unfolding existsSuffix_iff hashDigits_iff by blast
  then show ?thesis unfolding hashDigits_def .
qed

lemma startsWithDigit_iff: "startsWithDigit t \<longleftrightarrow> (\<exists>d post. t = [d] @ post \<and> isDigit d)"
  by (cases t) (simp_all add: startsWithDigit_def)

lemma orderDigit_iff:
  "existsSuffix (\<lambda>t. startsWithCI ''order'' t \<and> dotStar startsWithDigit (drop 5 t)) s
     \<longleftrightarrow> (\<exists>pre u mid d post. s = pre @ u @ mid @ [d] @ post
            \<and> map canon u = map canon ''order''
            \<and> list_all (\<lambda>c. \<not> isLineTerminator c) mid \<and> isDigit d)"
proof
  assume "existsSuffix (\<lambda>t. startsWithCI ''order'' t \<and> dotStar startsWithDigit (drop 5 t)) s"
  then obtain pre t where s: "s = pre @ t" and sw: "startsWithCI ''order'' t"
    and ds: "dotStar startsWithDigit (drop 5 t)"
    unfolding existsSuffix_iff by blast
  from sw obtain u rest where t: "t = u @ rest" and u: "map canon u = map canon ''order''"
    unfolding startsWithCI_iff by blast
  from u have "length u = 5" using canon_length [of u "''order''"] by simp
  with t ds have "dotStar startsWithDigit rest" by simp
  then obtain mid tl where rest: "rest = mid @ tl"
    and mid: "list_all (\<lambda>c. \<not> isLineTerminator c) mid" and "startsWithDigit tl"
    unfolding dotStar_iff by blast
  then obtain d post where "tl = [d] @ post" "isDigit d"
    unfolding startsWithDigit_iff by blast
  with s t rest have "s = pre @ u @ mid @ [d] @ post" by simp
  with u mid \<open>isDigit d\<close>
  show "\<exists>pre u mid d post. s = pre @ u @ mid @ [d] @ post
            \<and> map canon u = map canon ''order''
            \<and> list_all (\<lambda>c. \<not> isLineTerminator c) mid \<and> isDigit d" by blast
next
  assume "\<exists>pre u mid d post. s = pre @ u @ mid @ [d] @ post
            \<and> map canon u = map canon ''order''
            \<and> list_all (\<lambda>c. \<not> isLineTerminator c) mid \<and> isDigit d"
  then obtain pre u mid d post where s: "s = pre @ u @ mid @ [d] @ post"
    and u: "map canon u = map canon ''order''"
    and mid: "list_all (\<lambda>c. \<not> isLineTerminator c) mid" and d: "isDigit d"
    by blast
  let ?t = "u @ mid @ [d] @ post"
  from u have len: "length u = 5" using canon_length [of u "''order''"] by simp
  from d have "startsWithDigit ([d] @ post)" unfolding startsWithDigit_iff by blast
  with mid have "dotStar startsWithDigit (mid @ [d] @ post)" unfolding dotStar_iff by blast
  with len have "dotStar startsWithDigit (drop 5 ?t)" by simp
  moreover from u have "startsWithCI ''order'' ?t" unfolding startsWithCI_iff by blast
  ultimately
  show "existsSuffix (\<lambda>t. startsWithCI ''order'' t \<and> dotStar startsWithDigit (drop 5 t)) s"
    unfolding existsSuffix_iff using s by blast
qed

lemma orderDetailRe_iff: "orderDetailRe s \<longleftrightarrow> hasOrderNumberPattern s"
  unfolding orderDetailRe_def orderDetailAt_def existsSuffix_or hashDigit_iff orderDigit_iff
    hasOrderNumberPattern_def
  by (rule refl)

lemma validate_issues: "length (issues (validateResponse t)) = issueCount t"
  by (simp add: validateResponse_def issueCount_def placeholderRe_iff Let_def)

lemma validate_warnings: "length (warnings (validateResponse t)) = warningCount t"
  by (simp add: validateResponse_def warningCount_def Let_def professional_courtesy
      orderDetailRe_iff js_includes_iff)

lemma validate_isValid: "isValid (validateResponse t) = (issueCount t = 0)"
  by (simp add: validateResponse_def issueCount_def placeholderRe_iff Let_def)

lemma validate_score:
  "score (validateResponse t) = max 0 (1 - 0.3 * real (issueCount t) - 0.1 * real (warningCount t))"
proof -
  have "score (validateResponse t) =
      max 0 (1 - real (length (issues (validateResponse t))) * 0.3
               - real (length (warnings (validateResponse t))) * 0.1)"
    by (simp add: validateResponse_def Let_def)
  then show ?thesis by (simp add: validate_issues validate_warnings mult.commute)
qed


section \<open>The response validator: claims C8 and C10\<close>



text \<open>
  C10. A valid text has a score of at least 0.7: it has no issue and at most three
  warnings. So a score below 0.6 occurs only for an invalid text, and in the escalation
  decision of the pipeline the test of the score adds nothing to the other two.
\<close>

theorem valid_score_at_least:
  "(isValid (validateResponse t)
      \<longrightarrow> score (validateResponse t) \<ge> 0.7 \<and> length (warnings (validateResponse t)) \<le> 3)
   \<and> (score (validateResponse t) < 0.6 \<longrightarrow> \<not> isValid (validateResponse t))
   \<and> decideEscalation ai (validateResponse t)
       = (shouldEscalate ai \<or> \<not> isValid (validateResponse t))"
proof -
  have w: "warningCount t \<le> 3" by (simp add: warningCount_def)
  then have rw: "real (warningCount t) \<le> 3" by simp
  have v: "score (validateResponse t) \<ge> 0.7" if "isValid (validateResponse t)"
  proof -
    from that have "issueCount t = 0" by (simp add: validate_isValid)
    then have "score (validateResponse t) = max 0 (1 - 0.1 * real (warningCount t))"
      by (simp add: validate_score)
    with rw show ?thesis by simp
  qed
  then have s: "score (validateResponse t) < 0.6 \<Longrightarrow> \<not> isValid (validateResponse t)"
    by fastforce
  have d: "decideEscalation ai (validateResponse t)
       = (shouldEscalate ai \<or> \<not> isValid (validateResponse t))"
    unfolding decideEscalation_def using s by blast
  from v s d w show ?thesis by (simp add: validate_warnings)
qed

theorem valid_score_at_least_witness:
  "isValid (validateResponse courteousText) \<and> score (validateResponse courteousText) \<ge> 0.7
   \<and> score (validateResponse brokenText) < 0.6 \<and> \<not> isValid (validateResponse brokenText)"
proof -
  have a: "isValid (validateResponse courteousText)" unfolding courteousText_def by code_simp
  have b: "score (validateResponse brokenText) < 0.6" unfolding brokenText_def by code_simp
  from a have "score (validateResponse courteousText) \<ge> 0.7"
    using valid_score_at_least [of courteousText] by blast
  moreover from b have "\<not> isValid (validateResponse brokenText)"
    using valid_score_at_least [of brokenText] by blast
  ultimately show ?thesis using a b by blast
qed

section \<open>The intent classifier: claim C6\<close>

lemma lastOpt_Cons: "lastOpt (c # pre) = (if pre = [] then Some c else lastOpt pre)"
  by (cases pre) simp_all

lemma headOpt_append: "w \<noteq> [] \<Longrightarrow> headOpt (w @ post) = headOpt w"
  by (cases w) simp_all

lemma searchFrom_iff:
  "searchFrom m prev s
     \<longleftrightarrow> (\<exists>pre t. s = pre @ t \<and> m (if pre = [] then prev else lastOpt pre) t)"
proof (induction s arbitrary: prev)
  case Nil
  then show ?case by simp
next
  case (Cons c cs)
  show ?case
  proof
    assume "searchFrom m prev (c # cs)"
    then consider "m prev (c # cs)" | "searchFrom m (Some c) cs" by auto
    then show "\<exists>pre t. c # cs = pre @ t \<and> m (if pre = [] then prev else lastOpt pre) t"
    proof cases
      case 1
      then have "c # cs = [] @ (c # cs) \<and> m (if [] = [] then prev else lastOpt []) (c # cs)"
        by simp
      then show ?thesis by blast
    next
      case 2
      then obtain pre t where "cs = pre @ t" "m (if pre = [] then Some c else lastOpt pre) t"
        unfolding Cons.IH by blast
      then have "c # cs = (c # pre) @ t
          \<and> m (if c # pre = [] then prev else lastOpt (c # pre)) t"
        by (simp add: lastOpt_Cons)
      then show ?thesis by blast
    qed
  next
    assume "\<exists>pre t. c # cs = pre @ t \<and> m (if pre = [] then prev else lastOpt pre) t"
    then obtain pre t where pt: "c # cs = pre @ t" "m (if pre = [] then prev else lastOpt pre) t"
      by blast
    show "searchFrom m prev (c # cs)"
    proof (cases pre)
      case Nil
      with pt have "t = c # cs" "m prev t" by simp_all
      then show ?thesis by simp
    next
      case (Cons p ps)
      with pt have cs: "cs = ps @ t" and pc: "p = c" and "m (lastOpt (p # ps)) t"
        by simp_all
      then have "m (if ps = [] then Some c else lastOpt ps) t"
        by (cases "ps = []") (simp_all add: lastOpt_Cons)
      with cs have "searchFrom m (Some c) cs" unfolding Cons.IH by blast
      then show ?thesis by simp
    qed
  qed
qed

lemma matchWords_iff:
  assumes "wordTerms ws"
  shows "matchWords ws s \<longleftrightarrow> containsTerm ws s"
proof -
  have good: "isWordOpt (headOpt w) \<and> isWordOpt (lastOpt w) \<and> w \<noteq> []" if "w \<in> set ws" for w
  proof -
    from assms that have h: "isWordOpt (headOpt w)" "isWordOpt (lastOpt w)"
      by (auto simp: wordTerms_def list_all_iff)
    from h(1) have "w \<noteq> []" by (auto simp: isWordOpt_def)
    with h show ?thesis by simp
  qed
  have at: "wordAltAt ws prev t
      \<longleftrightarrow> (\<exists>w post. w \<in> set ws \<and> t = w @ post \<and> \<not> isWordOpt prev \<and> \<not> isWordOpt (headOpt post))"
    for prev t
  proof
    assume "wordAltAt ws prev t"
    then obtain w where b: "isBoundary prev (headOpt t)" and w: "w \<in> set ws"
      and sw: "js_startsWith w t"
      and b2: "isBoundary (lastOpt w) (headOpt (drop (length w) t))"
      by (auto simp: wordAltAt_def list_ex_iff)
    from sw obtain post where t: "t = w @ post" unfolding js_startsWith_iff by blast
    from good [OF w] t b b2 have "\<not> isWordOpt prev" "\<not> isWordOpt (headOpt post)"
      by (simp_all add: isBoundary_def headOpt_append)
    with w t show "\<exists>w post. w \<in> set ws \<and> t = w @ post \<and> \<not> isWordOpt prev
        \<and> \<not> isWordOpt (headOpt post)" by blast
  next
    assume "\<exists>w post. w \<in> set ws \<and> t = w @ post \<and> \<not> isWordOpt prev
        \<and> \<not> isWordOpt (headOpt post)"
    then obtain w post where w: "w \<in> set ws" and t: "t = w @ post"
      and p: "\<not> isWordOpt prev" "\<not> isWordOpt (headOpt post)" by blast
    from good [OF w] t p have "isBoundary prev (headOpt t)"
      "isBoundary (lastOpt w) (headOpt (drop (length w) t))"
      by (simp_all add: isBoundary_def headOpt_append)
    moreover from t have "js_startsWith w t" unfolding js_startsWith_iff by blast
    ultimately show "wordAltAt ws prev t"
      using w by (auto simp: wordAltAt_def list_ex_iff)
  qed
  have pre: "(if pre = [] then None else lastOpt pre) = lastOpt pre" for pre
    by simp
  show ?thesis
    unfolding matchWords_def searchFrom_iff pre at containsTerm_def by blast
qed

lemma complaintTerms_words: "wordTerms complaintTerms"
  by code_simp

lemma urgencyTerms_words: "wordTerms urgencyTerms"
  by code_simp

lemma statusTerms_words: "wordTerms statusTerms"
  by code_simp

lemma analyze_complaint:
  "matchWords complaintTerms (toLowerCase q) \<Longrightarrow>
     intent (analyzeCustomerQuery q) = ''complaint_issue''
     \<and> urgency (analyzeCustomerQuery q) = High
     \<and> requiresEscalation (analyzeCustomerQuery q)"
  by (simp add: analyzeCustomerQuery_def Let_def)

lemma analyze_urgent:
  "matchWords urgencyTerms (toLowerCase q) \<Longrightarrow>
     urgency (analyzeCustomerQuery q) = High \<and> requiresEscalation (analyzeCustomerQuery q)"
  by (simp add: analyzeCustomerQuery_def Let_def)

lemma analyze_intents:
  "intent (analyzeCustomerQuery q) \<in> set [''order_status'', ''shipping_tracking'',
     ''return_refund'', ''product_inquiry'', ''complaint_issue'', ''general_inquiry'']"
  by (simp add: analyzeCustomerQuery_def Let_def)

lemma analyze_refund_or_complaint:
  "intent (analyzeCustomerQuery q) = ''return_refund''
     \<or> intent (analyzeCustomerQuery q) = ''complaint_issue''
   \<Longrightarrow> requiresEscalation (analyzeCustomerQuery q)"
  by (auto simp add: analyzeCustomerQuery_def Let_def split: if_splits)

text \<open>
  C6, as stated, fails. The tests of the classifier are delimited by \<^verbatim>\<open>\b\<close>, so a term
  that stands inside a longer word is in the text and is not found. "It shipped but I
  have problems" contains the status term "shipped" and the complaint term "problem"
  (in "problems"): it is classified \<open>order_status\<close> with urgency medium and no
  escalation. "I urgently need it" contains the urgency term "urgent" (in "urgently"):
  its urgency is medium and it requires no escalation.
\<close>

theorem term_inside_word_not_found:
  "''shipped'' \<in> set statusTerms \<and> occursIn ''shipped'' (toLowerCase shippedProblems)
   \<and> ''problem'' \<in> set complaintTerms \<and> occursIn ''problem'' (toLowerCase shippedProblems)
   \<and> intent (analyzeCustomerQuery shippedProblems) = ''order_status''
   \<and> intent (analyzeCustomerQuery shippedProblems) \<noteq> ''complaint_issue''
   \<and> urgency (analyzeCustomerQuery shippedProblems) = Medium
   \<and> \<not> requiresEscalation (analyzeCustomerQuery shippedProblems)
   \<and> ''urgent'' \<in> set urgencyTerms \<and> occursIn ''urgent'' (toLowerCase urgentlyNote)
   \<and> urgency (analyzeCustomerQuery urgentlyNote) = Medium
   \<and> \<not> requiresEscalation (analyzeCustomerQuery urgentlyNote)"
proof -
  have t: "''shipped'' \<in> set statusTerms" "''problem'' \<in> set complaintTerms"
    "''urgent'' \<in> set urgencyTerms"
    by (simp_all add: statusTerms_def complaintTerms_def urgencyTerms_def)
  have "js_includes (toLowerCase shippedProblems) ''shipped''"
    "js_includes (toLowerCase shippedProblems) ''problem''"
    "js_includes (toLowerCase urgentlyNote) ''urgent''"
    unfolding shippedProblems_def urgentlyNote_def by code_simp+
  then have o: "occursIn ''shipped'' (toLowerCase shippedProblems)"
    "occursIn ''problem'' (toLowerCase shippedProblems)"
    "occursIn ''urgent'' (toLowerCase urgentlyNote)"
    by (simp_all add: js_includes_iff)
  have a: "intent (analyzeCustomerQuery shippedProblems) = ''order_status''"
    "urgency (analyzeCustomerQuery shippedProblems) = Medium"
    "\<not> requiresEscalation (analyzeCustomerQuery shippedProblems)"
    unfolding shippedProblems_def by code_simp+
  have b: "urgency (analyzeCustomerQuery urgentlyNote) = Medium"
    "\<not> requiresEscalation (analyzeCustomerQuery urgentlyNote)"
    unfolding urgentlyNote_def by code_simp+
  from t o a b show ?thesis by simp
qed

text \<open>
  C6, amended. A term counts where it stands as a word: no letter, digit or underscore
  right before it or right after it, in the lower-cased text. A text that contains a
  complaint term as a word is classified \<open>complaint_issue\<close> with urgency high and
  \<open>requiresEscalation\<close>, whatever else it contains: the complaint test comes after
  the tests for shipping, returns and products and overrides them. A text that contains
  an urgency term as a word has urgency high and \<open>requiresEscalation\<close>, whatever its
  intent.
\<close>

theorem complaint_overrides_status:
  "(containsTerm complaintTerms (toLowerCase q) \<longrightarrow>
      intent (analyzeCustomerQuery q) = ''complaint_issue''
      \<and> urgency (analyzeCustomerQuery q) = High
      \<and> requiresEscalation (analyzeCustomerQuery q))
   \<and> (containsTerm urgencyTerms (toLowerCase q) \<longrightarrow>
      urgency (analyzeCustomerQuery q) = High \<and> requiresEscalation (analyzeCustomerQuery q))"
  using analyze_complaint [of q] analyze_urgent [of q]
    matchWords_iff [OF complaintTerms_words] matchWords_iff [OF urgencyTerms_words]
  by blast

theorem complaint_overrides_status_witness:
  "containsTerm statusTerms (toLowerCase shippedDisappointed)
   \<and> containsTerm complaintTerms (toLowerCase shippedDisappointed)
   \<and> intent (analyzeCustomerQuery shippedDisappointed) = ''complaint_issue''
   \<and> urgency (analyzeCustomerQuery shippedDisappointed) = High
   \<and> requiresEscalation (analyzeCustomerQuery shippedDisappointed)
   \<and> containsTerm urgencyTerms (toLowerCase urgentQuestion)
   \<and> intent (analyzeCustomerQuery urgentQuestion) = ''general_inquiry''
   \<and> urgency (analyzeCustomerQuery urgentQuestion) = High
   \<and> requiresEscalation (analyzeCustomerQuery urgentQuestion)"
proof -
  have "matchWords statusTerms (toLowerCase shippedDisappointed)"
    unfolding shippedDisappointed_def by code_simp
  then have s: "containsTerm statusTerms (toLowerCase shippedDisappointed)"
    by (simp add: matchWords_iff [OF statusTerms_words])
  have "matchWords complaintTerms (toLowerCase shippedDisappointed)"
    unfolding shippedDisappointed_def by code_simp
  then have c: "containsTerm complaintTerms (toLowerCase shippedDisappointed)"
    by (simp add: matchWords_iff [OF complaintTerms_words])
  have "matchWords urgencyTerms (toLowerCase urgentQuestion)"
    unfolding urgentQuestion_def by code_simp
  then have u: "containsTerm urgencyTerms (toLowerCase urgentQuestion)"
    by (simp add: matchWords_iff [OF urgencyTerms_words])
  have g: "intent (analyzeCustomerQuery urgentQuestion) = ''general_inquiry''"
    unfolding urgentQuestion_def by code_simp
  show ?thesis
    using complaint_overrides_status [of shippedDisappointed]
      complaint_overrides_status [of urgentQuestion] s c u g by blast
qed

section \<open>The generation orchestrator: claims C1 and C4\<close>

lemma if_app: "(if c then p @ a else p @ b) = p @ (if c then a else b)"
  by simp
lemma case_option_app:
  "(case x of None \<Rightarrow> p @ a | Some y \<Rightarrow> p @ b y) = p @ (case x of None \<Rightarrow> a | Some y \<Rightarrow> b y)"
  by (cases x) simp_all
lemma case_list_app:
  "(case l of [] \<Rightarrow> p @ a | h # t \<Rightarrow> p @ b h t) = p @ (case l of [] \<Rightarrow> a | h # t \<Rightarrow> b h t)"
  by (cases l) simp_all
lemma greeting_nonempty: "''Hi'' @ x \<noteq> []"
  by simp
lemma returnRefund_nonempty: "generateReturnRefundResponse n q od a \<noteq> []"
  unfolding generateReturnRefundResponse_def by (rule greeting_nonempty)
lemma complaint_nonempty: "generateComplaintResponse n q od a \<noteq> []"
  unfolding generateComplaintResponse_def by (rule greeting_nonempty)
lemma productInquiry_nonempty: "generateProductInquiryResponse n q od a \<noteq> []"
  unfolding generateProductInquiryResponse_def Let_def by (rule greeting_nonempty)
lemma general_nonempty: "generateGeneralResponse n q od a \<noteq> []"
  unfolding generateGeneralResponse_def Let_def if_app by (rule greeting_nonempty)
lemma orderStatus_nonempty: "generateOrderStatusResponse n q od a \<noteq> []"
  unfolding generateOrderStatusResponse_def case_option_app case_list_app
  by (rule greeting_nonempty)
lemma shipping_nonempty: "generateShippingResponse fmt n q od a \<noteq> []"
  unfolding generateShippingResponse_def case_list_app case_option_app
  by (rule greeting_nonempty)
lemma fallbackText_nonempty: "fallbackText fmt params a \<noteq> []"
  unfolding fallbackText_def Let_def
  by (simp add: returnRefund_nonempty complaint_nonempty productInquiry_nonempty
      general_nonempty orderStatus_nonempty shipping_nonempty)

lemma tryGenerate_failed:
  "buildPrompt rt params = Some p \<Longrightarrow> create p = Failed e
     \<Longrightarrow> tryGenerate rt params create = (Inl e, [ChatCompletion p])"
  by (simp add: tryGenerate_def)

lemma tryGenerate_noPrompt:
  "buildPrompt rt params = None \<Longrightarrow> tryGenerate rt params create = (Inl typeError, [])"
  by (simp add: tryGenerate_def)

lemma typeError_unknown: "errorTypeOf typeError = ''unknown_error''"
  by (simp add: errorTypeOf_def typeError_def)

lemma generateResponse_failed:
  "buildPrompt rt params = Some p \<Longrightarrow> create p = Failed e
     \<Longrightarrow> generateResponse rt params create
         = (Inr (generateFallbackResponse (toLocaleDateString rt) params (errorTypeOf e)),
            [ChatCompletion p])"
  by (simp add: generateResponse_def tryGenerate_failed)

lemma generateResponse_noPrompt:
  "buildPrompt rt params = None
     \<Longrightarrow> generateResponse rt params create
         = (Inr (generateFallbackResponse (toLocaleDateString rt) params ''unknown_error''), [])"
  by (simp add: generateResponse_def tryGenerate_noPrompt typeError_unknown)

lemma legacyGenerateResponse_failed:
  "buildPrompt rt params = Some p \<Longrightarrow> create p = Failed e
     \<Longrightarrow> legacyGenerateResponse rt params create
         = (Inr (legacyFallbackResponse params (errorTypeOf e)), [ChatCompletion p])"
  by (simp add: legacyGenerateResponse_def tryGenerate_failed)

lemma legacyGenerateResponse_noPrompt:
  "buildPrompt rt params = None
     \<Longrightarrow> legacyGenerateResponse rt params create
         = (Inr (legacyFallbackResponse params ''unknown_error''), [])"
  by (simp add: legacyGenerateResponse_def tryGenerate_noPrompt typeError_unknown)

lemma generateResponse_total: "\<exists>r calls. generateResponse rt params create = (Inr r, calls)"
proof -
  obtain x calls where t: "tryGenerate rt params create = (x, calls)"
    by (cases "tryGenerate rt params create")
  then show ?thesis by (cases x) (simp_all add: generateResponse_def)
qed

lemma legacyGenerateResponse_total:
  "\<exists>r calls. legacyGenerateResponse rt params create = (Inr r, calls)"
proof -
  obtain x calls where t: "tryGenerate rt params create = (x, calls)"
    by (cases "tryGenerate rt params create")
  then show ?thesis by (cases x) (simp_all add: legacyGenerateResponse_def)
qed

lemma tryGenerate_calls:
  "snd (tryGenerate rt params create)
     = (case buildPrompt rt params of None \<Rightarrow> [] | Some p \<Rightarrow> [ChatCompletion p])"
  by (simp add: tryGenerate_def Let_def split: option.split ProviderOutcome.split)

lemma generateResponse_calls:
  "snd (generateResponse rt params create)
     = (case buildPrompt rt params of None \<Rightarrow> [] | Some p \<Rightarrow> [ChatCompletion p])"
proof -
  obtain x calls where t: "tryGenerate rt params create = (x, calls)"
    by (cases "tryGenerate rt params create")
  then have "snd (generateResponse rt params create) = calls"
    by (cases x) (simp_all add: generateResponse_def)
  with t tryGenerate_calls [of rt params create] show ?thesis by simp
qed

lemma errorTypeOf_classes:
  "errorTypeOf e \<in> set [''rate_limit'', ''auth_error'', ''service_unavailable'',
     ''invalid_request'', ''context_too_long'', ''network_error'', ''unknown_error'']"
  by (simp add: errorTypeOf_def)

lemma thanks_nonempty: "''Thank you'' @ x \<noteq> []"
  by simp

lemma legacyText_nonempty: "response (legacyFallbackResponse params ty) \<noteq> []"
  by (simp add: legacyFallbackResponse_def Let_def split: option.split list.split)

text \<open>
  C1. \<open>generateResponse\<close> returns a reply whatever the provider call does and lets no
  error through. A failure of the provider is answered by the fallback reply, built for
  one of the seven error classes; an error thrown while the prompt is built is answered
  by the fallback reply for the class \<open>unknown_error\<close>, with no call of the provider.
  The fallback reply has a text. This holds for the current copy of the service and for
  the older one.
\<close>

theorem generateResponse_never_throws:
  "(\<exists>r calls. generateResponse rt params create = (Inr r, calls))
   \<and> (buildPrompt rt params = Some p \<and> create p = Failed e \<longrightarrow>
        generateResponse rt params create
          = (Inr (generateFallbackResponse (toLocaleDateString rt) params (errorTypeOf e)),
             [ChatCompletion p]))
   \<and> (buildPrompt rt params = None \<longrightarrow>
        generateResponse rt params create
          = (Inr (generateFallbackResponse (toLocaleDateString rt) params ''unknown_error''),
             []))
   \<and> errorTypeOf e \<in> set [''rate_limit'', ''auth_error'', ''service_unavailable'',
        ''invalid_request'', ''context_too_long'', ''network_error'', ''unknown_error'']
   \<and> response (generateFallbackResponse fmt params ty) \<noteq> []
   \<and> modelUsed (generateFallbackResponse fmt params ty) = ''intelligent_fallback''
   \<and> (\<exists>r calls. legacyGenerateResponse rt params create = (Inr r, calls))
   \<and> (buildPrompt rt params = Some p \<and> create p = Failed e \<longrightarrow>
        legacyGenerateResponse rt params create
          = (Inr (legacyFallbackResponse params (errorTypeOf e)), [ChatCompletion p]))
   \<and> (buildPrompt rt params = None \<longrightarrow>
        legacyGenerateResponse rt params create
          = (Inr (legacyFallbackResponse params ''unknown_error''), []))
   \<and> response (legacyFallbackResponse params ty) \<noteq> []"
proof -
  have a: "response (generateFallbackResponse fmt params ty) \<noteq> []"
    by (simp add: generateFallbackResponse_def Let_def fallbackText_nonempty)
  have b: "modelUsed (generateFallbackResponse fmt params ty) = ''intelligent_fallback''"
    by (simp add: generateFallbackResponse_def Let_def)
  from a b generateResponse_total [of rt params create]
    generateResponse_failed [of rt params p create e]
    generateResponse_noPrompt [of rt params create]
    legacyGenerateResponse_total [of rt params create]
    legacyGenerateResponse_failed [of rt params p create e]
    legacyGenerateResponse_noPrompt [of rt params create]
    errorTypeOf_classes [of e] legacyText_nonempty [of params ty]
  show ?thesis by blast
qed

lemma failing_create: "completionsCreate failingEnv p = Failed rateLimited"
  by (simp add: failingEnv_def sampleEnv_def)

lemma plain_prompt: "buildPrompt plainRuntime params = Some (customerQuery params)"
  by (simp add: plainRuntime_def)

lemma broken_prompt: "buildPrompt brokenRuntime params = None"
  by (simp add: brokenRuntime_def plainRuntime_def)

lemma plain_date: "toLocaleDateString plainRuntime = (\<lambda>s. s)"
  "toLocaleDateString brokenRuntime = (\<lambda>s. s)"
  by (simp_all add: brokenRuntime_def plainRuntime_def)

lemma rateLimited_class: "errorTypeOf rateLimited = ''rate_limit''"
  by (simp add: errorTypeOf_def rateLimited_def)

theorem generateResponse_never_throws_witness:
  "generateResponse plainRuntime refundParams (completionsCreate failingEnv)
     = (Inr (generateFallbackResponse (\<lambda>s. s) refundParams ''rate_limit''),
        [ChatCompletion ''I would like a refund for my glasses''])
   \<and> generateResponse brokenRuntime refundParams (completionsCreate failingEnv)
     = (Inr (generateFallbackResponse (\<lambda>s. s) refundParams ''unknown_error''), [])
   \<and> response (generateFallbackResponse (\<lambda>s. s) refundParams ''rate_limit'') \<noteq> []
   \<and> legacyGenerateResponse plainRuntime refundParams (completionsCreate failingEnv)
     = (Inr (legacyFallbackResponse refundParams ''rate_limit''),
        [ChatCompletion ''I would like a refund for my glasses''])"
proof -
  have q: "customerQuery refundParams = ''I would like a refund for my glasses''"
    by (simp add: refundParams_def)
  from generateResponse_never_throws
      [of plainRuntime refundParams "completionsCreate failingEnv"
        "''I would like a refund for my glasses''" rateLimited "\<lambda>s. s" "''rate_limit''"]
    generateResponse_never_throws
      [of brokenRuntime refundParams "completionsCreate failingEnv" "[]" rateLimited
        "\<lambda>s. s" "''rate_limit''"]
  show ?thesis
    by (simp add: plain_prompt broken_prompt plain_date failing_create rateLimited_class q)
qed

text \<open>
  C4, as stated, fails for the older copy of the service: its fallback does not classify
  the intent. For a complaint it returns the confidence 0.6, not 0.80, and marks the
  reply \<open>fallback\<close>; for a question about the status of an order, where the classifier
  requires no escalation and the confidence of the claim would be 0.75, it returns 0.6
  and escalates.
\<close>

theorem legacy_fallback_ignores_intent:
  "buildPrompt plainRuntime (paramsFor unhappyNote) = Some unhappyNote
   \<and> completionsCreate failingEnv unhappyNote = Failed rateLimited
   \<and> legacyGenerateResponse plainRuntime (paramsFor unhappyNote) (completionsCreate failingEnv)
       = (Inr (legacyFallbackResponse (paramsFor unhappyNote) ''rate_limit''),
          [ChatCompletion unhappyNote])
   \<and> intent (analyzeCustomerQuery (customerQuery (paramsFor unhappyNote))) = ''complaint_issue''
   \<and> confidence (legacyFallbackResponse (paramsFor unhappyNote) ''rate_limit'') = 0.6
   \<and> confidence (legacyFallbackResponse (paramsFor unhappyNote) ''rate_limit'') \<noteq> 0.8
   \<and> modelUsed (legacyFallbackResponse (paramsFor unhappyNote) ''rate_limit'') = ''fallback''
   \<and> intent (analyzeCustomerQuery (customerQuery (paramsFor statusQuestion))) = ''order_status''
   \<and> \<not> requiresEscalation (analyzeCustomerQuery (customerQuery (paramsFor statusQuestion)))
   \<and> confidence (legacyFallbackResponse (paramsFor statusQuestion) ''rate_limit'') = 0.6
   \<and> shouldEscalate (legacyFallbackResponse (paramsFor statusQuestion) ''rate_limit'')"
proof -
  have q: "customerQuery (paramsFor unhappyNote) = unhappyNote"
    "customerQuery (paramsFor statusQuestion) = statusQuestion"
    by (simp_all add: paramsFor_def)
  have a: "intent (analyzeCustomerQuery unhappyNote) = ''complaint_issue''"
    "intent (analyzeCustomerQuery statusQuestion) = ''order_status''"
    "\<not> requiresEscalation (analyzeCustomerQuery statusQuestion)"
    unfolding unhappyNote_def statusQuestion_def by code_simp+
  have g: "legacyGenerateResponse plainRuntime (paramsFor unhappyNote)
        (completionsCreate failingEnv)
       = (Inr (legacyFallbackResponse (paramsFor unhappyNote) ''rate_limit''),
          [ChatCompletion unhappyNote])"
    using legacyGenerateResponse_failed
      [of plainRuntime "paramsFor unhappyNote" unhappyNote "completionsCreate failingEnv"
        rateLimited]
    by (simp add: plain_prompt failing_create rateLimited_class q)
  have c: "confidence (legacyFallbackResponse params ty) = 0.6"
    "shouldEscalate (legacyFallbackResponse params ty)"
    "modelUsed (legacyFallbackResponse params ty) = ''fallback''" for params ty
    by (simp_all add: legacyFallbackResponse_def Let_def)
  from g a c show ?thesis by (simp add: q plain_prompt failing_create)
qed

text \<open>
  C4, amended. In the current copy of the service (\<^verbatim>\<open>unnamed/part_002\<close>), for every
  failure of the provider the reply is the fallback reply (\<open>intelligent_fallback\<close>):
  its confidence is the base confidence of the classified intent (0.75 for
  \<open>order_status\<close> and \<open>shipping_tracking\<close>, 0.70 for \<open>return_refund\<close>, 0.65 for
  \<open>product_inquiry\<close>, 0.80 for \<open>complaint_issue\<close>, 0.60 for \<open>general_inquiry\<close>),
  and it escalates when the classifier requires escalation or the confidence is below
  0.7. So it escalates whenever the intent is \<open>return_refund\<close> or
  \<open>complaint_issue\<close>. In the older copy (\<^verbatim>\<open>app/services/ai-response.server.ts\<close>) the
  fallback reply has the confidence 0.6 for every query, always escalates and is marked
  \<open>fallback\<close>.
\<close>

theorem fallback_confidence_and_escalation:
  "buildPrompt rt params = Some p \<and> create p = Failed e \<longrightarrow>
   (\<exists>r. generateResponse rt params create = (Inr r, [ChatCompletion p])
     \<and> modelUsed r = ''intelligent_fallback''
     \<and> intent (analyzeCustomerQuery (customerQuery params)) \<in> set [''order_status'',
          ''shipping_tracking'', ''return_refund'', ''product_inquiry'', ''complaint_issue'',
          ''general_inquiry'']
     \<and> (intent (analyzeCustomerQuery (customerQuery params)) = ''order_status''
          \<longrightarrow> confidence r = 0.75)
     \<and> (intent (analyzeCustomerQuery (customerQuery params)) = ''shipping_tracking''
          \<longrightarrow> confidence r = 0.75)
     \<and> (intent (analyzeCustomerQuery (customerQuery params)) = ''return_refund''
          \<longrightarrow> confidence r = 0.70)
     \<and> (intent (analyzeCustomerQuery (customerQuery params)) = ''product_inquiry''
          \<longrightarrow> confidence r = 0.65)
     \<and> (intent (analyzeCustomerQuery (customerQuery params)) = ''complaint_issue''
          \<longrightarrow> confidence r = 0.80)
     \<and> (intent (analyzeCustomerQuery (customerQuery params)) = ''general_inquiry''
          \<longrightarrow> confidence r = 0.60)
     \<and> shouldEscalate r
         = (requiresEscalation (analyzeCustomerQuery (customerQuery params))
            \<or> confidence r < 0.7)
     \<and> (intent (analyzeCustomerQuery (customerQuery params)) = ''return_refund''
          \<or> intent (analyzeCustomerQuery (customerQuery params)) = ''complaint_issue''
          \<longrightarrow> shouldEscalate r))
   \<and> (\<exists>r. legacyGenerateResponse rt params create = (Inr r, [ChatCompletion p])
         \<and> confidence r = 0.6 \<and> shouldEscalate r \<and> modelUsed r = ''fallback'')"
proof
  assume h: "buildPrompt rt params = Some p \<and> create p = Failed e"
  let ?a = "analyzeCustomerQuery (customerQuery params)"
  let ?r = "generateFallbackResponse (toLocaleDateString rt) params (errorTypeOf e)"
  let ?l = "legacyFallbackResponse params (errorTypeOf e)"
  have c: "confidence ?r = fallbackConfidence (intent ?a)"
    by (simp add: generateFallbackResponse_def Let_def)
  have s: "shouldEscalate ?r = (requiresEscalation ?a \<or> confidence ?r < 0.7)"
    by (simp add: generateFallbackResponse_def Let_def)
  have m: "modelUsed ?r = ''intelligent_fallback''"
    by (simp add: generateFallbackResponse_def Let_def)
  have t: "intent ?a = ''order_status'' \<longrightarrow> fallbackConfidence (intent ?a) = 0.75"
    "intent ?a = ''shipping_tracking'' \<longrightarrow> fallbackConfidence (intent ?a) = 0.75"
    "intent ?a = ''return_refund'' \<longrightarrow> fallbackConfidence (intent ?a) = 0.70"
    "intent ?a = ''product_inquiry'' \<longrightarrow> fallbackConfidence (intent ?a) = 0.65"
    "intent ?a = ''complaint_issue'' \<longrightarrow> fallbackConfidence (intent ?a) = 0.80"
    "intent ?a = ''general_inquiry'' \<longrightarrow> fallbackConfidence (intent ?a) = 0.60"
    by (simp_all add: fallbackConfidence_def)
  have x: "intent ?a = ''return_refund'' \<or> intent ?a = ''complaint_issue'' \<longrightarrow> shouldEscalate ?r"
    using analyze_refund_or_complaint [of "customerQuery params"] s by blast
  have g: "generateResponse rt params create = (Inr ?r, [ChatCompletion p])"
    using h generateResponse_failed [of rt params p create e] by blast
  have current: "\<exists>r. generateResponse rt params create = (Inr r, [ChatCompletion p])
     \<and> modelUsed r = ''intelligent_fallback''
     \<and> intent ?a \<in> set [''order_status'',
          ''shipping_tracking'', ''return_refund'', ''product_inquiry'', ''complaint_issue'',
          ''general_inquiry'']
     \<and> (intent ?a = ''order_status'' \<longrightarrow> confidence r = 0.75)
     \<and> (intent ?a = ''shipping_tracking'' \<longrightarrow> confidence r = 0.75)
     \<and> (intent ?a = ''return_refund'' \<longrightarrow> confidence r = 0.70)
     \<and> (intent ?a = ''product_inquiry'' \<longrightarrow> confidence r = 0.65)
     \<and> (intent ?a = ''complaint_issue'' \<longrightarrow> confidence r = 0.80)
     \<and> (intent ?a = ''general_inquiry'' \<longrightarrow> confidence r = 0.60)
     \<and> shouldEscalate r = (requiresEscalation ?a \<or> confidence r < 0.7)
     \<and> (intent ?a = ''return_refund'' \<or> intent ?a = ''complaint_issue''
          \<longrightarrow> shouldEscalate r)"
    using g c s m t x analyze_intents [of "customerQuery params"] by simp
  have lg: "legacyGenerateResponse rt params create = (Inr ?l, [ChatCompletion p])"
    using h legacyGenerateResponse_failed [of rt params p create e] by blast
  have "confidence ?l = 0.6" "shouldEscalate ?l" "modelUsed ?l = ''fallback''"
    by (simp_all add: legacyFallbackResponse_def Let_def)
  with lg have legacy: "\<exists>r. legacyGenerateResponse rt params create = (Inr r, [ChatCompletion p])
         \<and> confidence r = 0.6 \<and> shouldEscalate r \<and> modelUsed r = ''fallback''"
    by simp
  from current legacy
  show "(\<exists>r. generateResponse rt params create = (Inr r, [ChatCompletion p])
     \<and> modelUsed r = ''intelligent_fallback''
     \<and> intent ?a \<in> set [''order_status'',
          ''shipping_tracking'', ''return_refund'', ''product_inquiry'', ''complaint_issue'',
          ''general_inquiry'']
     \<and> (intent ?a = ''order_status'' \<longrightarrow> confidence r = 0.75)
     \<and> (intent ?a = ''shipping_tracking'' \<longrightarrow> confidence r = 0.75)
     \<and> (intent ?a = ''return_refund'' \<longrightarrow> confidence r = 0.70)
     \<and> (intent ?a = ''product_inquiry'' \<longrightarrow> confidence r = 0.65)
     \<and> (intent ?a = ''complaint_issue'' \<longrightarrow> confidence r = 0.80)
     \<and> (intent ?a = ''general_inquiry'' \<longrightarrow> confidence r = 0.60)
     \<and> shouldEscalate r = (requiresEscalation ?a \<or> confidence r < 0.7)
     \<and> (intent ?a = ''return_refund'' \<or> intent ?a = ''complaint_issue''
          \<longrightarrow> shouldEscalate r))
   \<and> (\<exists>r. legacyGenerateResponse rt params create = (Inr r, [ChatCompletion p])
         \<and> confidence r = 0.6 \<and> shouldEscalate r \<and> modelUsed r = ''fallback'')"
    by (rule conjI)
qed

lemma sample_intents:
  "intent (analyzeCustomerQuery statusQuestion) = ''order_status''"
  "intent (analyzeCustomerQuery trackingQuestion) = ''shipping_tracking''"
  "intent (analyzeCustomerQuery refundRequest) = ''return_refund''"
  "intent (analyzeCustomerQuery frameQuestion) = ''product_inquiry''"
  "intent (analyzeCustomerQuery unhappyNote) = ''complaint_issue''"
  "intent (analyzeCustomerQuery greetingNote) = ''general_inquiry''"
  unfolding statusQuestion_def trackingQuestion_def refundRequest_def frameQuestion_def
    unhappyNote_def greetingNote_def
  by code_simp+

lemma paramsFor_query: "customerQuery (paramsFor q) = q"
  by (simp add: paramsFor_def)

lemma paramsFor_fails:
  "buildPrompt plainRuntime (paramsFor q) = Some q
   \<and> completionsCreate failingEnv q = Failed rateLimited"
  by (simp add: plain_prompt failing_create paramsFor_query)

theorem fallback_confidence_and_escalation_witness:
  "(\<exists>r. generateResponse plainRuntime (paramsFor statusQuestion) (completionsCreate failingEnv)
          = (Inr r, [ChatCompletion statusQuestion])
        \<and> confidence r = 0.75 \<and> modelUsed r = ''intelligent_fallback'')
   \<and> (\<exists>r. generateResponse plainRuntime (paramsFor trackingQuestion)
            (completionsCreate failingEnv) = (Inr r, [ChatCompletion trackingQuestion])
        \<and> confidence r = 0.75)
   \<and> (\<exists>r. generateResponse plainRuntime (paramsFor refundRequest) (completionsCreate failingEnv)
          = (Inr r, [ChatCompletion refundRequest])
        \<and> confidence r = 0.7 \<and> shouldEscalate r)
   \<and> (\<exists>r. generateResponse plainRuntime (paramsFor frameQuestion) (completionsCreate failingEnv)
          = (Inr r, [ChatCompletion frameQuestion])
        \<and> confidence r = 0.65 \<and> shouldEscalate r)
   \<and> (\<exists>r. generateResponse plainRuntime (paramsFor unhappyNote) (completionsCreate failingEnv)
          = (Inr r, [ChatCompletion unhappyNote])
        \<and> confidence r = 0.8 \<and> shouldEscalate r)
   \<and> (\<exists>r. generateResponse plainRuntime (paramsFor greetingNote) (completionsCreate failingEnv)
          = (Inr r, [ChatCompletion greetingNote])
        \<and> confidence r = 0.6 \<and> shouldEscalate r)
   \<and> (\<exists>r. legacyGenerateResponse plainRuntime (paramsFor unhappyNote)
            (completionsCreate failingEnv) = (Inr r, [ChatCompletion unhappyNote])
        \<and> confidence r = 0.6 \<and> shouldEscalate r \<and> modelUsed r = ''fallback'')"
proof -
  note t = fallback_confidence_and_escalation
    [of plainRuntime _ _ "completionsCreate failingEnv" rateLimited, THEN mp, OF paramsFor_fails]
  have a: "\<exists>r. generateResponse plainRuntime (paramsFor statusQuestion)
        (completionsCreate failingEnv) = (Inr r, [ChatCompletion statusQuestion])
        \<and> confidence r = 0.75 \<and> modelUsed r = ''intelligent_fallback''"
    using t [of statusQuestion] sample_intents(1)
    unfolding paramsFor_query by auto
  have b: "\<exists>r. generateResponse plainRuntime (paramsFor trackingQuestion)
        (completionsCreate failingEnv) = (Inr r, [ChatCompletion trackingQuestion])
        \<and> confidence r = 0.75"
    using t [of trackingQuestion] sample_intents(2)
    unfolding paramsFor_query by auto
  have c: "\<exists>r. generateResponse plainRuntime (paramsFor refundRequest)
        (completionsCreate failingEnv) = (Inr r, [ChatCompletion refundRequest])
        \<and> confidence r = 0.7 \<and> shouldEscalate r"
    using t [of refundRequest] sample_intents(3)
    unfolding paramsFor_query by auto
  have d: "\<exists>r. generateResponse plainRuntime (paramsFor frameQuestion)
        (completionsCreate failingEnv) = (Inr r, [ChatCompletion frameQuestion])
        \<and> confidence r = 0.65 \<and> shouldEscalate r"
    using t [of frameQuestion] sample_intents(4)
    unfolding paramsFor_query by auto
  have e: "\<exists>r. generateResponse plainRuntime (paramsFor unhappyNote)
        (completionsCreate failingEnv) = (Inr r, [ChatCompletion unhappyNote])
        \<and> confidence r = 0.8 \<and> shouldEscalate r"
    using t [of unhappyNote] sample_intents(5)
    unfolding paramsFor_query by auto
  have f: "\<exists>r. generateResponse plainRuntime (paramsFor greetingNote)
        (completionsCreate failingEnv) = (Inr r, [ChatCompletion greetingNote])
        \<and> confidence r = 0.6 \<and> shouldEscalate r"
    using t [of greetingNote] sample_intents(6)
    unfolding paramsFor_query by auto
  have g: "\<exists>r. legacyGenerateResponse plainRuntime (paramsFor unhappyNote)
        (completionsCreate failingEnv) = (Inr r, [ChatCompletion unhappyNote])
        \<and> confidence r = 0.6 \<and> shouldEscalate r \<and> modelUsed r = ''fallback''"
    using t [of unhappyNote] by blast
  from a b c d e f g show ?thesis by blast
qed

section \<open>Order numbers: claim C7\<close>

lemma existsSuffix_mono:
  "(\<And>t. p t \<Longrightarrow> q t) \<Longrightarrow> existsSuffix p s \<Longrightarrow> existsSuffix q s"
  unfolding existsSuffix_iff by blast

lemma findFirst_None_iff: "findFirst m s = None \<longleftrightarrow> \<not> existsSuffix (\<lambda>t. m t \<noteq> None) s"
  by (induction s) (auto split: option.splits)

lemma findFirstFrom_None_iff:
  "findFirstFrom m prev s = None \<longleftrightarrow> \<not> searchFrom (\<lambda>p t. m p t \<noteq> None) prev s"
  by (induction s arbitrary: prev) (auto split: option.splits)

lemma hash_occurs: "existsSuffix (js_startsWith ''#'') s \<longleftrightarrow> CHR ''#'' \<in> set s"
proof -
  have "existsSuffix (js_startsWith ''#'') s \<longleftrightarrow> (\<exists>pre post. s = pre @ CHR ''#'' # post)"
    unfolding existsSuffix_iff js_startsWith_iff by auto
  then show ?thesis by (simp add: in_set_conv_decomp)
qed

lemma no_order_no_hash:
  assumes "CHR ''#'' \<notin> set s" "\<not> containsCI ''order'' s"
  shows "\<not> existsSuffix (\<lambda>t. startsWithCI ''order'' t \<or> js_startsWith ''#'' t) s"
  using assms unfolding existsSuffix_or containsCI_iff hash_occurs by simp

lemma orderMatchAt_start:
  "orderMatchAt t \<noteq> None \<Longrightarrow> startsWithCI ''order'' t \<or> js_startsWith ''#'' t"
  by (auto simp: orderMatchAt_def split: if_splits)

lemma pattern1At_start: "pattern1At t \<noteq> None \<Longrightarrow> startsWithCI ''order'' t \<or> js_startsWith ''#'' t"
  by (auto simp: pattern1At_def split: if_splits)

lemma pattern2At_start: "pattern2At t \<noteq> None \<Longrightarrow> startsWithCI ''order'' t \<or> js_startsWith ''#'' t"
  by (auto simp: pattern2At_def split: if_splits)

lemma pattern3At_start: "pattern3At t \<noteq> None \<Longrightarrow> startsWithCI ''order'' t \<or> js_startsWith ''#'' t"
  by (auto simp: pattern3At_def split: if_splits)

lemma findFirst_needs_start:
  assumes "\<And>t. m t \<noteq> None \<Longrightarrow> startsWithCI ''order'' t \<or> js_startsWith ''#'' t"
    and "CHR ''#'' \<notin> set s" "\<not> containsCI ''order'' s"
  shows "findFirst m s = None"
  unfolding findFirst_None_iff
  using existsSuffix_mono [of "\<lambda>t. m t \<noteq> None"
      "\<lambda>t. startsWithCI ''order'' t \<or> js_startsWith ''#'' t" s]
    assms(1) no_order_no_hash [OF assms(2,3)] by blast

lemma isDigit_word: "isDigit c \<Longrightarrow> isWordChar c"
  by (simp add: isWordChar_def)

lemma lastOpt_all: "g \<noteq> [] \<Longrightarrow> list_all P g \<Longrightarrow> \<exists>c. lastOpt g = Some c \<and> P c"
  by (induction g rule: lastOpt.induct) simp_all

lemma headOpt_all: "g \<noteq> [] \<Longrightarrow> list_all P g \<Longrightarrow> \<exists>c. headOpt (g @ r) = Some c \<and> P c"
  by (cases g) simp_all

lemma pattern4At_number:
  assumes "pattern4At prev t \<noteq> None"
  shows "\<exists>g post. t = g @ post \<and> length g \<ge> 4 \<and> list_all isDigit g
           \<and> \<not> isWordOpt prev \<and> \<not> isWordOpt (headOpt post)"
proof -
  let ?g = "takeWhile isDigit t" and ?post = "dropWhile isDigit t"
  from assms have b1: "isBoundary prev (headOpt t)" and len: "length ?g \<ge> 4"
    and b2: "isBoundary (lastOpt ?g) (headOpt ?post)"
    by (auto simp: pattern4At_def Let_def split: if_splits)
  have t: "t = ?g @ ?post" by simp
  have all: "list_all isDigit ?g" by (simp add: list_all_iff) (meson set_takeWhileD)
  from len have ne: "?g \<noteq> []" by auto
  from lastOpt_all [OF ne all] have "isWordOpt (lastOpt ?g)"
    by (auto simp: isWordOpt_def isDigit_word)
  with b2 have p: "\<not> isWordOpt (headOpt ?post)" by (simp add: isBoundary_def)
  from headOpt_all [OF ne all, of ?post] have "isWordOpt (headOpt t)"
    by (auto simp: isWordOpt_def isDigit_word)
  with b1 have "\<not> isWordOpt prev" by (simp add: isBoundary_def)
  with t len all p show ?thesis by blast
qed

lemma pattern4_needs_number:
  assumes "\<not> hasStandaloneNumber s"
  shows "findFirstFrom pattern4At None s = None"
proof (rule ccontr)
  assume "findFirstFrom pattern4At None s \<noteq> None"
  then have "searchFrom (\<lambda>p t. pattern4At p t \<noteq> None) None s"
    by (simp add: findFirstFrom_None_iff)
  then obtain pre t where s: "s = pre @ t"
    and m: "pattern4At (if pre = [] then None else lastOpt pre) t \<noteq> None"
    unfolding searchFrom_iff by blast
  have "(if pre = [] then None else lastOpt pre) = lastOpt pre" by simp
  with pattern4At_number [OF m] obtain g post where
    "t = g @ post" "length g \<ge> 4" "list_all isDigit g"
    "\<not> isWordOpt (lastOpt pre)" "\<not> isWordOpt (headOpt post)" by auto
  with s have "hasStandaloneNumber s" unfolding hasStandaloneNumber_def by blast
  with assms show False by simp
qed

text \<open>
  C7, as stated, fails for \<open>extractOrderNumber\<close>, the extraction of the email
  pipeline: its patterns capture digits only, so the example yields \<open>2024\<close>, and its
  last pattern takes any number of four digits or more, so a text with neither
  \<^verbatim>\<open>#\<close> nor "order" can still yield an order number.
\<close>

theorem extractOrderNumber_differs:
  "extractOrderNumber orderExample = Some ''2024''
   \<and> extractOrderNumber orderExample \<noteq> Some ''BLG-2024-001''
   \<and> CHR ''#'' \<notin> set phoneText \<and> \<not> containsCI ''order'' phoneText
   \<and> extractOrderNumber phoneText = Some ''5551234''"
proof -
  have a: "extractOrderNumber orderExample = Some ''2024''"
    unfolding orderExample_def by code_simp
  have b: "CHR ''#'' \<notin> set phoneText" unfolding phoneText_def by simp
  have "\<not> existsSuffix (startsWithCI ''order'') phoneText" unfolding phoneText_def by code_simp
  then have c: "\<not> containsCI ''order'' phoneText" by (simp add: containsCI_iff)
  have d: "extractOrderNumber phoneText = Some ''5551234''"
    unfolding phoneText_def by code_simp
  from a b c d show ?thesis by simp
qed

text \<open>
  C7, amended. For the example the classifier extracts \<open>BLG-2024-001\<close> and
  \<open>extractOrderNumber\<close> extracts \<open>2024\<close>. For a text with neither \<^verbatim>\<open>#\<close> nor
  "order" (in any case) the classifier extracts nothing, and \<open>extractOrderNumber\<close>
  extracts nothing when the text has, besides, no number of four digits or more standing
  alone.
\<close>

theorem orderNumber_extraction:
  "queryOrderNumber (analyzeCustomerQuery orderExample) = Some ''BLG-2024-001''
   \<and> (CHR ''#'' \<notin> set q \<and> \<not> containsCI ''order'' q
        \<longrightarrow> queryOrderNumber (analyzeCustomerQuery q) = None)
   \<and> extractOrderNumber orderExample = Some ''2024''
   \<and> (CHR ''#'' \<notin> set q \<and> \<not> containsCI ''order'' q \<and> \<not> hasStandaloneNumber q
        \<longrightarrow> extractOrderNumber q = None)"
proof -
  have a: "queryOrderNumber (analyzeCustomerQuery orderExample) = Some ''BLG-2024-001''"
    unfolding orderExample_def by code_simp
  have q: "queryOrderNumber (analyzeCustomerQuery q) = orderMatch q"
    by (simp add: analyzeCustomerQuery_def Let_def)
  have b: "queryOrderNumber (analyzeCustomerQuery q) = None"
    if "CHR ''#'' \<notin> set q" "\<not> containsCI ''order'' q"
    unfolding q orderMatch_def using findFirst_needs_start [of orderMatchAt q, OF orderMatchAt_start that] .
  have c: "extractOrderNumber orderExample = Some ''2024''"
    unfolding orderExample_def by code_simp
  have d: "extractOrderNumber q = None"
    if h: "CHR ''#'' \<notin> set q" "\<not> containsCI ''order'' q" and n: "\<not> hasStandaloneNumber q"
    unfolding extractOrderNumber_def
    using findFirst_needs_start [of pattern1At q, OF pattern1At_start h]
      findFirst_needs_start [of pattern2At q, OF pattern2At_start h]
      findFirst_needs_start [of pattern3At q, OF pattern3At_start h]
      pattern4_needs_number [OF n] by simp
  from a b c d show ?thesis by blast
qed

theorem orderNumber_extraction_witness:
  "CHR ''#'' \<notin> set plainQuestion \<and> \<not> containsCI ''order'' plainQuestion
   \<and> \<not> hasStandaloneNumber plainQuestion
   \<and> queryOrderNumber (analyzeCustomerQuery plainQuestion) = None
   \<and> extractOrderNumber plainQuestion = None"
proof -
  have a: "CHR ''#'' \<notin> set plainQuestion" unfolding plainQuestion_def by simp
  have "\<not> existsSuffix (startsWithCI ''order'') plainQuestion"
    unfolding plainQuestion_def by code_simp
  then have b: "\<not> containsCI ''order'' plainQuestion" by (simp add: containsCI_iff)
  have "\<not> list_ex isDigit plainQuestion" unfolding plainQuestion_def by code_simp
  then have nd: "\<And>c. c \<in> set plainQuestion \<Longrightarrow> \<not> isDigit c" by (simp add: list_ex_iff)
  have c: "\<not> hasStandaloneNumber plainQuestion"
  proof
    assume "hasStandaloneNumber plainQuestion"
    then obtain pre g post where pq: "plainQuestion = pre @ g @ post" and "length g \<ge> 4"
      "list_all isDigit g" unfolding hasStandaloneNumber_def by blast
    then obtain d l where "g = d # l" "isDigit d"
      by (cases g) auto
    then have "d \<in> set (pre @ g @ post)" "isDigit d" by simp_all
    then have "d \<in> set plainQuestion" "isDigit d" unfolding pq by simp_all
    with nd show False by blast
  qed
  from a b c orderNumber_extraction [of plainQuestion] show ?thesis by blast
qed

section \<open>The email pipeline: claims C2, C3 and C9\<close>

lemma choose_flag: "snd (chooseFinalResponse env email orders similar cat ai s) = s"
  by (simp add: chooseFinalResponse_def Let_def)

lemma choose_text_kept:
  "fst (chooseFinalResponse env email orders similar cat ai False) = response ai"
  by (simp add: chooseFinalResponse_def)

lemma deliver_sends:
  "snd (deliver env email saved s s db)
     = [SendReply (fromEmail email) (''Re: '' @ subject email) (responseText saved)
          (threadId email)]"
  by (simp add: deliver_def Let_def)

lemma deliver_emails: "customerEmailTable (fst (deliver env email saved s f db)) = customerEmailTable db"
  by (simp add: deliver_def Let_def updateResponse_def)

lemma deliver_responses:
  "aIResponseTable (fst (deliver env email saved s s db))
     = (if sendReply env (fromEmail email) (''Re: '' @ subject email) (responseText saved)
             (threadId email)
        then map (\<lambda>r. if responseRowId r = responseRowId saved
                       then r\<lparr>sentViaGmail := True, sentAt := Some (now env)\<rparr> else r)
               (aIResponseTable db)
        else aIResponseTable db)"
  by (simp add: deliver_def Let_def updateResponse_def)

lemma updateConversation_tables:
  "customerEmailTable (updateConversation cid f db) = customerEmailTable db"
  "aIResponseTable (updateConversation cid f db) = aIResponseTable db"
  by (simp_all add: updateConversation_def)

lemma updateEmail_tables:
  "aIResponseTable (updateEmail eid f db) = aIResponseTable db"
  "customerEmailTable (updateEmail eid f db)
     = map (\<lambda>e. if emailRowId e = eid then f e else e) (customerEmailTable db)"
  by (simp_all add: updateEmail_def)

lemma findOrCreate_tables:
  "customerEmailTable (fst (findOrCreateConversation db email)) = customerEmailTable db"
  "aIResponseTable (fst (findOrCreateConversation db email)) = aIResponseTable db"
  by (simp_all add: findOrCreateConversation_def Let_def split: option.splits)

lemma saveEmail_tables:
  "aIResponseTable (fst (saveEmail db email conv)) = aIResponseTable db"
  "customerEmailTable (fst (saveEmail db email conv))
     = customerEmailTable db @ [snd (saveEmail db email conv)]"
  "gmailMessageId (snd (saveEmail db email conv)) = messageId email"
  by (simp_all add: saveEmail_def Let_def)

lemma find_seen:
  "find P xs = None \<longleftrightarrow> \<not> list_ex P xs"
  by (auto simp: find_None_iff list_ex_iff)

lemma processEmail_seen:
  assumes "list_ex (\<lambda>e. gmailMessageId e = messageId email) (customerEmailTable db)"
  shows "processEmail env db email = (db, [], alreadyProcessed)"
proof -
  from assms obtain x where
    "find (\<lambda>e. gmailMessageId e = messageId email) (customerEmailTable db) = Some x"
    using find_seen [of "\<lambda>e. gmailMessageId e = messageId email" "customerEmailTable db"]
    by auto
  then show ?thesis by (simp add: processEmail_def alreadyProcessed_def)
qed

lemma requestParams_record:
  "requestParams env email
     = \<lparr>customerQuery = body email, customerEmail = fromEmail email,
          customerName = Some (fromName email),
          orderData = Some (lookupOrders env email (extractOrderNumber (body email))),
          similarResponses = Some (searchSimilarResponses env (body email) 3),
          category = Some (classifyQuery env (body email)),
          contextNote = Some (''Subject: '' @ subject email)\<rparr>"
  by (simp add: requestParams_def escalationParams_def)

lemma requestParams_query: "customerQuery (requestParams env email) = body email"
  by (simp add: requestParams_def escalationParams_def)

lemma choose_text:
  "fst (chooseFinalResponse env email
          (lookupOrders env email (extractOrderNumber (body email)))
          (searchSimilarResponses env (body email) 3) (classifyQuery env (body email)) ai s)
     = (if s then response (generateFallbackResponse (toLocaleDateString (runtime env))
                              (escalationParams env email) ''escalation'')
        else response ai)"
  by (simp add: chooseFinalResponse_def Let_def escalationParams_def)

lemma processEmail_new:
  assumes new: "\<not> list_ex (\<lambda>e. gmailMessageId e = messageId email) (customerEmailTable db)"
    and gen: "generateResponse (runtime env) (requestParams env email) (completionsCreate env)
                = (Inr ai, calls)"
  shows "fst (snd (processEmail env db email))
           = calls @ [SendReply (fromEmail email) (''Re: '' @ subject email)
                (responseText (last (aIResponseTable (fst (processEmail env db email)))))
                (threadId email)]"
    and "resultEscalated (snd (snd (processEmail env db email)))
           = decideEscalation ai (validateResponse (response ai))"
    and "escalated (last (aIResponseTable (fst (processEmail env db email))))
           = decideEscalation ai (validateResponse (response ai))"
    and "responseText (last (aIResponseTable (fst (processEmail env db email))))
           = (if decideEscalation ai (validateResponse (response ai))
              then response (generateFallbackResponse (toLocaleDateString (runtime env))
                               (escalationParams env email) ''escalation'')
              else response ai)"
    and "length (aIResponseTable (fst (processEmail env db email)))
           = Suc (length (aIResponseTable db))"
    and "list_ex (\<lambda>e. gmailMessageId e = messageId email)
           (customerEmailTable (fst (processEmail env db email)))"
  using new gen unfolding find_seen [symmetric] requestParams_record
  by (simp_all add: processEmail_def Let_def case_prod_beta choose_flag choose_text
      deliver_sends deliver_emails deliver_responses updateConversation_tables
      updateEmail_tables findOrCreate_tables saveEmail_tables last_map list_ex_iff)

lemma processEmail_new_tables:
  assumes "\<not> list_ex (\<lambda>e. gmailMessageId e = messageId email) (customerEmailTable db)"
  shows "length (aIResponseTable (fst (processEmail env db email)))
           = Suc (length (aIResponseTable db))"
    and "list_ex (\<lambda>e. gmailMessageId e = messageId email)
           (customerEmailTable (fst (processEmail env db email)))"
proof -
  obtain ai calls where
    "generateResponse (runtime env) (requestParams env email) (completionsCreate env)
       = (Inr ai, calls)"
    using generateResponse_total by blast
  from processEmail_new(5,6) [OF assms this]
  show "length (aIResponseTable (fst (processEmail env db email)))
           = Suc (length (aIResponseTable db))"
    and "list_ex (\<lambda>e. gmailMessageId e = messageId email)
           (customerEmailTable (fst (processEmail env db email)))"
    by blast+
qed

lemma fallback_confident:
  "\<not> shouldEscalate (generateFallbackResponse fmt params ty)
     \<Longrightarrow> confidence (generateFallbackResponse fmt params ty) \<ge> 0.7"
  by (simp add: generateFallbackResponse_def Let_def)

lemma tryGenerate_confident:
  "tryGenerate rt params create = (Inr r, calls) \<Longrightarrow> \<not> shouldEscalate r
     \<Longrightarrow> confidence r \<ge> 0.7"
  by (auto simp: tryGenerate_def Let_def split: option.splits ProviderOutcome.splits)

lemma reply_confident:
  assumes "generateResponse rt params create = (Inr r, calls)" "\<not> shouldEscalate r"
  shows "confidence r \<ge> 0.7"
proof -
  obtain x cs where t: "tryGenerate rt params create = (x, cs)"
    by (cases "tryGenerate rt params create")
  show ?thesis
  proof (cases x)
    case (Inl e)
    with t assms(1) have "r = generateFallbackResponse (toLocaleDateString rt) params
        (errorTypeOf e)"
      by (simp add: generateResponse_def)
    with assms(2) show ?thesis using fallback_confident by blast
  next
    case (Inr y)
    with t assms(1) have "tryGenerate rt params create = (Inr r, calls)"
      by (simp add: generateResponse_def)
    with assms(2) show ?thesis by (rule tryGenerate_confident [rotated])
  qed
qed

lemma replyJustified_sent:
  "replyJustified (r\<lparr>sentViaGmail := a, sentAt := b\<rparr>) = replyJustified r"
  by (simp add: replyJustified_def)

lemma replyJustified_map:
  "list_all replyJustified
     (map (\<lambda>r. if responseRowId r = i then r\<lparr>sentViaGmail := a, sentAt := b\<rparr> else r) rs)
   = list_all replyJustified rs"
  by (induction rs) (simp_all add: replyJustified_sent)

lemma new_row_justified:
  assumes "shouldEscalate ai \<or> confidence ai \<ge> 0.7"
  shows "replyJustified
     \<lparr>responseRowId = i,
      responseText = fst (chooseFinalResponse env email orders similar cat ai
                            (decideEscalation ai (validateResponse (response ai)))),
      rowConfidence = confidence ai, sentViaGmail = False,
      humanReviewed = decideEscalation ai (validateResponse (response ai)),
      escalated = decideEscalation ai (validateResponse (response ai)),
      sentAt = None, responseConversationId = c, shopifyData = sd, ragSources = rs,
      rowPromptUsed = p\<rparr>"
proof (cases "decideEscalation ai (validateResponse (response ai))")
  case True
  then show ?thesis by (simp add: replyJustified_def)
next
  case False
  then have "\<not> shouldEscalate ai" "isValid (validateResponse (response ai))"
    "score (validateResponse (response ai)) \<ge> 0.6"
    by (auto simp: decideEscalation_def)
  moreover from this(1) assms have "confidence ai \<ge> 0.7" by blast
  ultimately show ?thesis using False
    by (simp add: replyJustified_def choose_text_kept)
qed

lemma processEmail_invariant:
  assumes "list_all replyJustified (aIResponseTable db)"
  shows "list_all replyJustified (aIResponseTable (fst (processEmail env db email)))"
proof (cases "list_ex (\<lambda>e. gmailMessageId e = messageId email) (customerEmailTable db)")
  case True
  with assms show ?thesis by (simp add: processEmail_seen)
next
  case False
  then have new: "find (\<lambda>e. gmailMessageId e = messageId email) (customerEmailTable db) = None"
    by (simp add: find_seen)
  let ?orders = "lookupOrders env email (extractOrderNumber (body email))"
  let ?cat = "classifyQuery env (body email)"
  let ?similar = "searchSimilarResponses env (body email) 3"
  let ?params = "\<lparr>customerQuery = body email, customerEmail = fromEmail email,
     customerName = Some (fromName email), orderData = Some ?orders,
     similarResponses = Some ?similar, category = Some ?cat,
     contextNote = Some (''Subject: '' @ subject email)\<rparr>"
  obtain ai calls where gen: "generateResponse (runtime env) ?params (completionsCreate env)
      = (Inr ai, calls)"
    using generateResponse_total by blast
  then have conf: "shouldEscalate ai \<or> confidence ai \<ge> 0.7"
    using reply_confident by blast
  let ?esc = "decideEscalation ai (validateResponse (response ai))"
  let ?row = "\<lparr>responseRowId = length (aIResponseTable db),
      responseText = fst (chooseFinalResponse env email ?orders ?similar ?cat ai ?esc),
      rowConfidence = confidence ai, sentViaGmail = False,
      humanReviewed = ?esc, escalated = ?esc,
      sentAt = None,
      responseConversationId = conversationId (snd (findOrCreateConversation db email)),
      shopifyData = (if length ?orders > 0 then Some ?orders else None),
      ragSources = (if length ?similar > 0 then Some ?similar else None),
      rowPromptUsed = promptUsed ai\<rparr>"
  have row: "replyJustified ?row" by (rule new_row_justified [OF conf])
  have "aIResponseTable (fst (processEmail env db email))
      = aIResponseTable db @ [?row]
    \<or> aIResponseTable (fst (processEmail env db email))
      = map (\<lambda>r. if responseRowId r = length (aIResponseTable db)
                    then r\<lparr>sentViaGmail := True, sentAt := Some (now env)\<rparr> else r)
          (aIResponseTable db @ [?row])"
    using new gen
    by (simp add: processEmail_def Let_def case_prod_beta choose_flag deliver_responses
        updateConversation_tables updateEmail_tables findOrCreate_tables saveEmail_tables)
  then show ?thesis
  proof
    assume "aIResponseTable (fst (processEmail env db email)) = aIResponseTable db @ [?row]"
    with assms row show ?thesis by simp
  next
    assume "aIResponseTable (fst (processEmail env db email))
      = map (\<lambda>r. if responseRowId r = length (aIResponseTable db)
                    then r\<lparr>sentViaGmail := True, sentAt := Some (now env)\<rparr> else r)
          (aIResponseTable db @ [?row])"
    with assms row show ?thesis by (simp only: replyJustified_map) simp
  qed
qed

lemma emptyDatabase_new:
  "\<not> list_ex (\<lambda>e. gmailMessageId e = messageId email) (customerEmailTable emptyDatabase)"
  by (simp add: emptyDatabase_def)

lemma calls_no_draft:
  "list_all (\<lambda>x. \<not> isCreateDraft x)
     (case buildPrompt rt params of None \<Rightarrow> [] | Some p \<Rightarrow> [ChatCompletion p])"
  by (simp split: option.split)

lemma fallback_escalates:
  "requiresEscalation (analyzeCustomerQuery (customerQuery params))
     \<Longrightarrow> shouldEscalate (generateFallbackResponse fmt params ty)"
  by (simp add: generateFallbackResponse_def Let_def)

lemma sample_runtimes:
  "runtime failingEnv = plainRuntime" "runtime brokenEnv = brokenRuntime"
  "runtime sampleEnv = plainRuntime"
  by (simp_all add: failingEnv_def brokenEnv_def sampleEnv_def)

text \<open>
  C2. No run of \<open>processEmail\<close> creates a draft. A run on a message not seen before
  makes the calls of \<open>generateResponse\<close> (one call of the provider, or none when the
  prompt could not be built) and then sends the stored reply with \<open>sendReply\<close>, once.
  The result and the stored row carry the escalation decision; when it is true the stored
  and sent text is that of the intelligent fallback, and not the text that was rejected,
  and otherwise it is the text of the reply. In the code: when the decision is true
  \<open>chooseFinalResponse\<close> replaces the text and sets \<open>isIntelligentFallback\<close>, so
  \<open>shouldSendDirectly\<close> holds on every path and \<open>deliver\<close> never creates a draft.
\<close>

theorem reply_always_sent:
  "list_all (\<lambda>x. \<not> isCreateDraft x) (fst (snd (processEmail env db email)))
   \<and> (\<not> list_ex (\<lambda>e. gmailMessageId e = messageId email) (customerEmailTable db) \<longrightarrow>
        (\<exists>ai calls.
           generateResponse (runtime env) (requestParams env email) (completionsCreate env)
             = (Inr ai, calls)
           \<and> calls = (case buildPrompt (runtime env) (requestParams env email) of
                        None \<Rightarrow> [] | Some p \<Rightarrow> [ChatCompletion p])
           \<and> fst (snd (processEmail env db email))
               = calls @ [SendReply (fromEmail email) (''Re: '' @ subject email)
                   (responseText (last (aIResponseTable (fst (processEmail env db email)))))
                   (threadId email)]
           \<and> resultEscalated (snd (snd (processEmail env db email)))
               = decideEscalation ai (validateResponse (response ai))
           \<and> escalated (last (aIResponseTable (fst (processEmail env db email))))
               = decideEscalation ai (validateResponse (response ai))
           \<and> responseText (last (aIResponseTable (fst (processEmail env db email))))
               = (if decideEscalation ai (validateResponse (response ai))
                  then response (generateFallbackResponse (toLocaleDateString (runtime env))
                                   (escalationParams env email) ''escalation'')
                  else response ai)))
   \<and> chooseFinalResponse env email orders similar cat ai True
       = (response (generateFallbackResponse (toLocaleDateString (runtime env))
                      \<lparr>customerQuery = body email, customerEmail = fromEmail email,
                       customerName = Some (fromName email), orderData = Some orders,
                       similarResponses = Some similar, category = Some cat,
                       contextNote = None\<rparr> ''escalation''), True)
   \<and> list_all (\<lambda>x. \<not> isCreateDraft x)
        (snd (deliver env email saved esc
                (snd (chooseFinalResponse env email orders similar cat ai esc)) db))"
proof -
  let ?new = "\<not> list_ex (\<lambda>e. gmailMessageId e = messageId email) (customerEmailTable db)"
  obtain r calls where gen:
    "generateResponse (runtime env) (requestParams env email) (completionsCreate env)
       = (Inr r, calls)"
    using generateResponse_total by blast
  have cs: "calls = (case buildPrompt (runtime env) (requestParams env email) of
                       None \<Rightarrow> [] | Some p \<Rightarrow> [ChatCompletion p])"
    using generateResponse_calls [of "runtime env" "requestParams env email"
        "completionsCreate env"] gen by simp
  have nd: "list_all (\<lambda>x. \<not> isCreateDraft x) calls"
    unfolding cs by (rule calls_no_draft)
  have a: "list_all (\<lambda>x. \<not> isCreateDraft x) (fst (snd (processEmail env db email)))"
  proof (cases ?new)
    case False
    then show ?thesis by (simp add: processEmail_seen)
  next
    case True
    from processEmail_new(1) [OF True gen] nd show ?thesis by simp
  qed
  have b: "?new \<longrightarrow> (\<exists>ai calls.
           generateResponse (runtime env) (requestParams env email) (completionsCreate env)
             = (Inr ai, calls)
           \<and> calls = (case buildPrompt (runtime env) (requestParams env email) of
                        None \<Rightarrow> [] | Some p \<Rightarrow> [ChatCompletion p])
           \<and> fst (snd (processEmail env db email))
               = calls @ [SendReply (fromEmail email) (''Re: '' @ subject email)
                   (responseText (last (aIResponseTable (fst (processEmail env db email)))))
                   (threadId email)]
           \<and> resultEscalated (snd (snd (processEmail env db email)))
               = decideEscalation ai (validateResponse (response ai))
           \<and> escalated (last (aIResponseTable (fst (processEmail env db email))))
               = decideEscalation ai (validateResponse (response ai))
           \<and> responseText (last (aIResponseTable (fst (processEmail env db email))))
               = (if decideEscalation ai (validateResponse (response ai))
                  then response (generateFallbackResponse (toLocaleDateString (runtime env))
                                   (escalationParams env email) ''escalation'')
                  else response ai))"
  proof
    assume n: ?new
    from gen cs processEmail_new(1) [OF n gen] processEmail_new(2) [OF n gen]
      processEmail_new(3) [OF n gen] processEmail_new(4) [OF n gen]
    show "\<exists>ai calls.
           generateResponse (runtime env) (requestParams env email) (completionsCreate env)
             = (Inr ai, calls)
           \<and> calls = (case buildPrompt (runtime env) (requestParams env email) of
                        None \<Rightarrow> [] | Some p \<Rightarrow> [ChatCompletion p])
           \<and> fst (snd (processEmail env db email))
               = calls @ [SendReply (fromEmail email) (''Re: '' @ subject email)
                   (responseText (last (aIResponseTable (fst (processEmail env db email)))))
                   (threadId email)]
           \<and> resultEscalated (snd (snd (processEmail env db email)))
               = decideEscalation ai (validateResponse (response ai))
           \<and> escalated (last (aIResponseTable (fst (processEmail env db email))))
               = decideEscalation ai (validateResponse (response ai))
           \<and> responseText (last (aIResponseTable (fst (processEmail env db email))))
               = (if decideEscalation ai (validateResponse (response ai))
                  then response (generateFallbackResponse (toLocaleDateString (runtime env))
                                   (escalationParams env email) ''escalation'')
                  else response ai)"
      by blast
  qed
  have c: "chooseFinalResponse env email orders similar cat ai True
       = (response (generateFallbackResponse (toLocaleDateString (runtime env))
                      \<lparr>customerQuery = body email, customerEmail = fromEmail email,
                       customerName = Some (fromName email), orderData = Some orders,
                       similarResponses = Some similar, category = Some cat,
                       contextNote = None\<rparr> ''escalation''), True)"
    by (simp add: chooseFinalResponse_def Let_def)
  have d: "list_all (\<lambda>x. \<not> isCreateDraft x)
        (snd (deliver env email saved esc
                (snd (chooseFinalResponse env email orders similar cat ai esc)) db))"
    by (simp add: choose_flag deliver_sends)
  from a b c d show ?thesis by (intro conjI)
qed

theorem reply_always_sent_witness:
  "resultEscalated (snd (snd (processEmail failingEnv emptyDatabase complaintEmail)))
   \<and> fst (snd (processEmail failingEnv emptyDatabase complaintEmail))
       = [ChatCompletion ''The frame is terrible, I want a refund'',
          SendReply ''bob@example.com'' ''Re: Glasses''
            (response (generateFallbackResponse (\<lambda>s. s)
                         (escalationParams failingEnv complaintEmail) ''escalation''))
            ''t2'']
   \<and> escalated (last (aIResponseTable
                        (fst (processEmail failingEnv emptyDatabase complaintEmail))))
   \<and> responseText (last (aIResponseTable
                           (fst (processEmail failingEnv emptyDatabase complaintEmail))))
       = response (generateFallbackResponse (\<lambda>s. s)
                     (escalationParams failingEnv complaintEmail) ''escalation'')
   \<and> \<not> resultEscalated (snd (snd (processEmail brokenEnv emptyDatabase sampleEmail)))
   \<and> fst (snd (processEmail brokenEnv emptyDatabase sampleEmail))
       = [SendReply ''ann@example.com'' ''Re: Tracking''
            (response (generateFallbackResponse (\<lambda>s. s)
                         (requestParams brokenEnv sampleEmail) ''unknown_error''))
            ''t1'']"
proof -
  let ?p = "requestParams failingEnv complaintEmail"
  let ?fb = "generateFallbackResponse (\<lambda>s. s) ?p ''rate_limit''"
  let ?run = "processEmail failingEnv emptyDatabase complaintEmail"
  have f: "fromEmail complaintEmail = ''bob@example.com''"
    "''Re: '' @ subject complaintEmail = ''Re: Glasses''" "threadId complaintEmail = ''t2''"
    "body complaintEmail = ''The frame is terrible, I want a refund''"
    by (simp_all add: complaintEmail_def)
  have g: "generateResponse (runtime failingEnv) ?p (completionsCreate failingEnv)
      = (Inr ?fb, [ChatCompletion ''The frame is terrible, I want a refund''])"
    using generateResponse_failed
      [of plainRuntime ?p "''The frame is terrible, I want a refund''"
        "completionsCreate failingEnv" rateLimited]
    by (simp add: sample_runtimes plain_prompt plain_date failing_create rateLimited_class
        requestParams_query f)
  have "requiresEscalation (analyzeCustomerQuery ''The frame is terrible, I want a refund'')"
    by code_simp
  then have "shouldEscalate ?fb"
    using fallback_escalates [of ?p "\<lambda>s. s" "''rate_limit''"]
    by (simp add: requestParams_query f)
  then have de: "decideEscalation ?fb (validateResponse (response ?fb))"
    by (simp add: decideEscalation_def)
  from reply_always_sent [of failingEnv emptyDatabase complaintEmail]
    emptyDatabase_new [of complaintEmail]
  obtain ai calls where
    r: "generateResponse (runtime failingEnv) ?p (completionsCreate failingEnv)
          = (Inr ai, calls)"
      "fst (snd ?run)
         = calls @ [SendReply (fromEmail complaintEmail) (''Re: '' @ subject complaintEmail)
             (responseText (last (aIResponseTable (fst ?run)))) (threadId complaintEmail)]"
      "resultEscalated (snd (snd ?run)) = decideEscalation ai (validateResponse (response ai))"
      "escalated (last (aIResponseTable (fst ?run)))
         = decideEscalation ai (validateResponse (response ai))"
      "responseText (last (aIResponseTable (fst ?run)))
         = (if decideEscalation ai (validateResponse (response ai))
            then response (generateFallbackResponse (toLocaleDateString (runtime failingEnv))
                             (escalationParams failingEnv complaintEmail) ''escalation'')
            else response ai)"
    by blast
  from r(1) g have ai: "ai = ?fb"
    and calls: "calls = [ChatCompletion ''The frame is terrible, I want a refund'']"
    by simp_all
  have first: "resultEscalated (snd (snd ?run))"
    "escalated (last (aIResponseTable (fst ?run)))"
    "responseText (last (aIResponseTable (fst ?run)))
       = response (generateFallbackResponse (\<lambda>s. s)
                     (escalationParams failingEnv complaintEmail) ''escalation'')"
    using r(3,4,5) de unfolding ai by (simp_all add: sample_runtimes plain_date)
  have sent: "fst (snd ?run)
       = [ChatCompletion ''The frame is terrible, I want a refund'',
          SendReply ''bob@example.com'' ''Re: Glasses''
            (response (generateFallbackResponse (\<lambda>s. s)
                         (escalationParams failingEnv complaintEmail) ''escalation''))
            ''t2'']"
    using r(2) first(3) unfolding calls f by simp
  let ?q = "requestParams brokenEnv sampleEmail"
  let ?ub = "generateFallbackResponse (\<lambda>s. s) ?q ''unknown_error''"
  let ?run2 = "processEmail brokenEnv emptyDatabase sampleEmail"
  have f2: "fromEmail sampleEmail = ''ann@example.com''"
    "''Re: '' @ subject sampleEmail = ''Re: Tracking''" "threadId sampleEmail = ''t1''"
    by (simp_all add: sampleEmail_def)
  have g2: "generateResponse (runtime brokenEnv) ?q (completionsCreate brokenEnv) = (Inr ?ub, [])"
    using generateResponse_noPrompt [of brokenRuntime ?q "completionsCreate brokenEnv"]
    by (simp add: sample_runtimes broken_prompt plain_date)
  have nd: "\<not> decideEscalation ?ub (validateResponse (response ?ub))"
    unfolding requestParams_def escalationParams_def brokenEnv_def sampleEnv_def
      sampleEmail_def sampleOrder_def
    by code_simp
  from reply_always_sent [of brokenEnv emptyDatabase sampleEmail]
    emptyDatabase_new [of sampleEmail]
  obtain ai2 calls2 where
    r2: "generateResponse (runtime brokenEnv) ?q (completionsCreate brokenEnv)
          = (Inr ai2, calls2)"
      "fst (snd ?run2)
         = calls2 @ [SendReply (fromEmail sampleEmail) (''Re: '' @ subject sampleEmail)
             (responseText (last (aIResponseTable (fst ?run2)))) (threadId sampleEmail)]"
      "resultEscalated (snd (snd ?run2))
         = decideEscalation ai2 (validateResponse (response ai2))"
      "responseText (last (aIResponseTable (fst ?run2)))
         = (if decideEscalation ai2 (validateResponse (response ai2))
            then response (generateFallbackResponse (toLocaleDateString (runtime brokenEnv))
                             (escalationParams brokenEnv sampleEmail) ''escalation'')
            else response ai2)"
    by blast
  from r2(1) g2 have ai2: "ai2 = ?ub" and calls2: "calls2 = []" by simp_all
  have second: "\<not> resultEscalated (snd (snd ?run2))"
    "responseText (last (aIResponseTable (fst ?run2))) = response ?ub"
    using r2(3,4) nd unfolding ai2 by simp_all
  have sent2: "fst (snd ?run2)
       = [SendReply ''ann@example.com'' ''Re: Tracking'' (response ?ub) ''t1'']"
    using r2(2) second(2) unfolding calls2 f2 by simp
  from first sent second(1) sent2 show ?thesis by (intro conjI)
qed

text \<open>
  C3. Every reply the pipeline stores with the escalation flag false passed validation
  (valid, score at least 0.6) and has a confidence of at least 0.7: the property holds
  for the row a run adds and is kept for the rows already stored. A reply of
  \<open>generateResponse\<close> that does not ask for escalation has a confidence of at least
  0.7, whether it comes from the provider or from the fallback.
\<close>

theorem unescalated_reply_justified:
  "(list_all replyJustified (aIResponseTable db)
      \<longrightarrow> list_all replyJustified (aIResponseTable (fst (processEmail env db email))))
   \<and> (generateResponse rt params create = (Inr r, calls) \<and> \<not> shouldEscalate r
      \<longrightarrow> confidence r \<ge> 0.7)"
  using processEmail_invariant [of db env email] reply_confident [of rt params create r calls]
  by blast

theorem unescalated_reply_justified_witness:
  "list_all replyJustified (aIResponseTable emptyDatabase)
   \<and> list_all replyJustified
        (aIResponseTable (fst (processEmail sampleEnv emptyDatabase sampleEmail)))
   \<and> list_all (\<lambda>r. \<not> escalated r)
        (aIResponseTable (fst (processEmail sampleEnv emptyDatabase sampleEmail)))
   \<and> length (aIResponseTable (fst (processEmail sampleEnv emptyDatabase sampleEmail))) = 1
   \<and> \<not> shouldEscalate (generateFallbackResponse (\<lambda>s. s) trackingParams ''rate_limit'')
   \<and> confidence (generateFallbackResponse (\<lambda>s. s) trackingParams ''rate_limit'') \<ge> 0.7"
proof -
  have a: "list_all replyJustified (aIResponseTable emptyDatabase)"
    by (simp add: emptyDatabase_def)
  have b: "list_all (\<lambda>r. \<not> escalated r)
        (aIResponseTable (fst (processEmail sampleEnv emptyDatabase sampleEmail)))"
    unfolding sampleEnv_def emptyDatabase_def sampleEmail_def plainRuntime_def sampleOrder_def
    by code_simp
  have c: "length (aIResponseTable (fst (processEmail sampleEnv emptyDatabase sampleEmail))) = 1"
    using processEmail_new_tables(1) [of sampleEmail emptyDatabase sampleEnv, OF emptyDatabase_new]
    by (simp add: emptyDatabase_def)
  have d: "\<not> shouldEscalate (generateFallbackResponse (\<lambda>s. s) trackingParams ''rate_limit'')"
    unfolding trackingParams_def sampleOrder_def by code_simp
  have g: "generateResponse plainRuntime trackingParams (completionsCreate failingEnv)
      = (Inr (generateFallbackResponse (\<lambda>s. s) trackingParams ''rate_limit''),
         [ChatCompletion (customerQuery trackingParams)])"
    using generateResponse_failed
      [of plainRuntime trackingParams "customerQuery trackingParams"
        "completionsCreate failingEnv" rateLimited]
    by (simp add: plain_prompt plain_date failing_create rateLimited_class)
  from unescalated_reply_justified
    [of emptyDatabase sampleEnv sampleEmail plainRuntime trackingParams
      "completionsCreate failingEnv"
      "generateFallbackResponse (\<lambda>s. s) trackingParams ''rate_limit''"
      "[ChatCompletion (customerQuery trackingParams)]"] a b c d g
  show ?thesis by blast
qed

text \<open>
  C9. When an email with the message id is already stored, \<open>processEmail\<close> leaves the
  store as it is, calls neither the provider nor the mailbox, and returns success with
  the message "Email already processed". A first run on a new message stores exactly one
  reply, and a second run with the same message is such a repeated run.
\<close>

theorem processing_is_idempotent:
  "(list_ex (\<lambda>e. gmailMessageId e = messageId email) (customerEmailTable db)
      \<longrightarrow> processEmail env db email = (db, [], alreadyProcessed))
   \<and> (\<not> list_ex (\<lambda>e. gmailMessageId e = messageId email) (customerEmailTable db)
      \<longrightarrow> length (aIResponseTable (fst (processEmail env db email)))
            = Suc (length (aIResponseTable db))
          \<and> processEmail env2 (fst (processEmail env db email)) email
              = (fst (processEmail env db email), [], alreadyProcessed))"
  using processEmail_seen [of email db env]
    processEmail_seen [of email "fst (processEmail env db email)" env2]
    processEmail_new_tables [of email db env]
  by blast

theorem processing_is_idempotent_witness:
  "length (aIResponseTable (fst (processEmail sampleEnv emptyDatabase sampleEmail))) = 1
   \<and> processEmail failingEnv (fst (processEmail sampleEnv emptyDatabase sampleEmail)) sampleEmail
       = (fst (processEmail sampleEnv emptyDatabase sampleEmail), [], alreadyProcessed)
   \<and> list_ex (\<lambda>e. gmailMessageId e = messageId sampleEmail)
        (customerEmailTable (fst (processEmail sampleEnv emptyDatabase sampleEmail)))
   \<and> processEmail sampleEnv (fst (processEmail sampleEnv emptyDatabase sampleEmail)) sampleEmail
       = (fst (processEmail sampleEnv emptyDatabase sampleEmail), [], alreadyProcessed)"
proof -
  have n: "length (aIResponseTable emptyDatabase) = 0" by (simp add: emptyDatabase_def)
  have s: "list_ex (\<lambda>e. gmailMessageId e = messageId sampleEmail)
        (customerEmailTable (fst (processEmail sampleEnv emptyDatabase sampleEmail)))"
    by (rule processEmail_new_tables(2) [OF emptyDatabase_new])
  from processing_is_idempotent [of sampleEmail emptyDatabase sampleEnv failingEnv]
    processing_is_idempotent
      [of sampleEmail "fst (processEmail sampleEnv emptyDatabase sampleEmail)" sampleEnv sampleEnv]
    emptyDatabase_new [of sampleEmail] n s
  show ?thesis by simp
qed

end
